theory Spec2Isabelle
  imports Complex_Main "HOL-Library.AList" "HOL-Library.Multiset"
begin

section \<open>Data model (src/lib/storage.ts)\<close>

text \<open>
  The interfaces \<open>Transaction\<close>, \<open>Category\<close> and \<open>FinancialData\<close> of storage.ts.
  A JavaScript \<open>number\<close> is idealised as a real number (no rounding, no NaN, no infinity);
  an optional property is an \<open>option\<close>.  The properties \<open>id\<close>, \<open>type\<close> and \<open>notes\<close> carry a suffix
  (\<open>id_T\<close>, \<open>type_T\<close>, \<open>notes_T\<close> for a transaction, \<open>id_C\<close>, \<open>type_C\<close> for a category).
\<close>

datatype TransactionType = income | expense

datatype Status = paid | pending

record Transaction =
  id_T :: string
  description :: string
  amount :: real
  categoryId :: string
  date :: string
  type_T :: TransactionType
  status :: Status
  notes_T :: "string option"
  createdAt :: string
  updatedAt :: string

record Category =
  id_C :: string
  name :: string
  color :: string
  icon :: string
  type_C :: TransactionType

record FinancialData =
  transactions :: "Transaction list"
  categories :: "Category list"

text \<open>\<open>Omit<Transaction, 'id' | 'createdAt' | 'updatedAt'>\<close>, the argument of \<open>addTransaction\<close>.\<close>

record NewTransaction =
  new_description :: string
  new_amount :: real
  new_categoryId :: string
  new_date :: string
  new_type :: TransactionType
  new_status :: Status
  new_notes :: "string option"

text \<open>
  \<open>Partial<Transaction>\<close> and \<open>Partial<Category>\<close>: every property may be absent (\<open>None\<close>);
  a property that is present replaces the stored one when the patch is spread over the record.
\<close>

record TransactionPatch =
  upd_id :: "string option"
  upd_description :: "string option"
  upd_amount :: "real option"
  upd_categoryId :: "string option"
  upd_date :: "string option"
  upd_type :: "TransactionType option"
  upd_status :: "Status option"
  upd_notes :: "string option"
  upd_createdAt :: "string option"
  upd_updatedAt :: "string option"

record CategoryPatch =
  upd_id_C :: "string option"
  upd_name :: "string option"
  upd_color :: "string option"
  upd_icon :: "string option"
  upd_type_C :: "TransactionType option"

text \<open>What a \<open>throw\<close> raises.  \<open>IllTyped\<close> is not a JavaScript exception: it marks a call
  that found persisted JSON without the declared shape \<open>FinancialData\<close>, where the source runs on
  a value its types exclude and the model does not follow it.\<close>

datatype error = Error string | SyntaxError | TypeError | IllTyped

section \<open>JSON values and the persisted text\<close>

text \<open>
  The result of \<open>JSON.parse\<close>.  An object lists its properties in the order of the text,
  each name once.
\<close>

datatype json =
    JNull
  | JBool bool
  | JNum real
  | JStr string
  | JArr "json list"
  | JObj "(string \<times> json) list"

text \<open>
  The program never looks inside a JSON text: it hands the text to \<open>JSON.parse\<close> and gets it
  from \<open>JSON.stringify\<close>.  A text is therefore represented by what \<open>JSON.parse\<close> makes of it:
  \<open>Serialised v\<close> is a text that parses to \<open>v\<close> (whatever its layout), \<open>Malformed\<close> one on
  which \<open>JSON.parse\<close> throws (the empty string included).  That \<open>JSON.parse\<close> gives back
  what \<open>JSON.stringify\<close> was given is the built-in's contract and part of this representation.
\<close>

datatype json_text = Malformed | Serialised json

definition JSON_parse :: "json_text \<Rightarrow> error + json" where
  "JSON_parse s = (case s of Malformed \<Rightarrow> Inl SyntaxError | Serialised v \<Rightarrow> Inr v)"

definition JSON_stringify :: "json \<Rightarrow> json_text" where
  "JSON_stringify v = Serialised v"

text \<open>\<open>!v\<close> is false exactly for a truthy \<open>v\<close>; \<open>undefined\<close> (a missing property) is \<open>None\<close>.\<close>

fun truthy :: "json option \<Rightarrow> bool" where
  "truthy None = False"
| "truthy (Some JNull) = False"
| "truthy (Some (JBool b)) = b"
| "truthy (Some (JNum n)) = (n \<noteq> 0)"
| "truthy (Some (JStr s)) = (s \<noteq> [])"
| "truthy (Some (JArr xs)) = True"
| "truthy (Some (JObj kvs)) = True"

text \<open>\<open>data.k\<close> for a property name \<open>k\<close> that no prototype defines (here \<open>transactions\<close> and
  \<open>categories\<close>): a \<open>TypeError\<close> on \<open>null\<close>, the object's own property, and \<open>undefined\<close>
  on everything else.\<close>

fun get_prop :: "json \<Rightarrow> string \<Rightarrow> error + json option" where
  "get_prop JNull k = Inl TypeError"
| "get_prop (JObj kvs) k = Inr (map_of kvs k)"
| "get_prop v k = Inr None"

subsection \<open>The declared shapes as JSON\<close>

definition json_of_type :: "TransactionType \<Rightarrow> json" where
  "json_of_type ty = (case ty of income \<Rightarrow> JStr ''income'' | expense \<Rightarrow> JStr ''expense'')"

definition json_of_status :: "Status \<Rightarrow> json" where
  "json_of_status st = (case st of paid \<Rightarrow> JStr ''paid'' | pending \<Rightarrow> JStr ''pending'')"

definition json_of_Transaction :: "Transaction \<Rightarrow> json" where
  "json_of_Transaction t = JObj
     ([(''id'', JStr (id_T t)),
       (''description'', JStr (description t)),
       (''amount'', JNum (amount t)),
       (''categoryId'', JStr (categoryId t)),
       (''date'', JStr (date t)),
       (''type'', json_of_type (type_T t)),
       (''status'', json_of_status (status t))]
      @ (case notes_T t of None \<Rightarrow> [] | Some n \<Rightarrow> [(''notes'', JStr n)])
      @ [(''createdAt'', JStr (createdAt t)),
         (''updatedAt'', JStr (updatedAt t))])"

definition json_of_Category :: "Category \<Rightarrow> json" where
  "json_of_Category c = JObj
     [(''id'', JStr (id_C c)),
      (''name'', JStr (name c)),
      (''color'', JStr (color c)),
      (''icon'', JStr (icon c)),
      (''type'', json_of_type (type_C c))]"

definition json_of_FinancialData :: "FinancialData \<Rightarrow> json" where
  "json_of_FinancialData d = JObj
     [(''transactions'', JArr (map json_of_Transaction (transactions d))),
      (''categories'', JArr (map json_of_Category (categories d)))]"

text \<open>Reading a JSON value at a declared type; \<open>None\<close> when it does not have that shape.
  Properties outside the interface are not tracked.\<close>

fun str_of_json :: "json option \<Rightarrow> string option" where
  "str_of_json (Some (JStr s)) = Some s"
| "str_of_json v = None"

fun num_of_json :: "json option \<Rightarrow> real option" where
  "num_of_json (Some (JNum n)) = Some n"
| "num_of_json v = None"

definition type_of_json :: "json option \<Rightarrow> TransactionType option" where
  "type_of_json v = (case str_of_json v of
       None \<Rightarrow> None
     | Some s \<Rightarrow> if s = ''income'' then Some income
                else if s = ''expense'' then Some expense else None)"

definition status_of_json :: "json option \<Rightarrow> Status option" where
  "status_of_json v = (case str_of_json v of
       None \<Rightarrow> None
     | Some s \<Rightarrow> if s = ''paid'' then Some paid
                else if s = ''pending'' then Some pending else None)"

text \<open>An optional string property: absent, or a string.\<close>

fun optstr_of_json :: "json option \<Rightarrow> string option option" where
  "optstr_of_json None = Some None"
| "optstr_of_json (Some (JStr s)) = Some (Some s)"
| "optstr_of_json v = None"

fun Transaction_of_json :: "json \<Rightarrow> Transaction option" where
  "Transaction_of_json (JObj kvs) =
     (case (str_of_json (map_of kvs ''id''), str_of_json (map_of kvs ''description''),
            num_of_json (map_of kvs ''amount''), str_of_json (map_of kvs ''categoryId''),
            str_of_json (map_of kvs ''date''), type_of_json (map_of kvs ''type''),
            status_of_json (map_of kvs ''status''), optstr_of_json (map_of kvs ''notes''),
            str_of_json (map_of kvs ''createdAt''), str_of_json (map_of kvs ''updatedAt'')) of
        (Some i, Some de, Some a, Some c, Some da, Some ty, Some st, Some n, Some cr, Some up) \<Rightarrow>
          Some \<lparr>id_T = i, description = de, amount = a, categoryId = c, date = da, type_T = ty,
                status = st, notes_T = n, createdAt = cr, updatedAt = up\<rparr>
      | _ \<Rightarrow> None)"
| "Transaction_of_json v = None"

fun Category_of_json :: "json \<Rightarrow> Category option" where
  "Category_of_json (JObj kvs) =
     (case (str_of_json (map_of kvs ''id''), str_of_json (map_of kvs ''name''),
            str_of_json (map_of kvs ''color''), str_of_json (map_of kvs ''icon''),
            type_of_json (map_of kvs ''type'')) of
        (Some i, Some n, Some c, Some ic, Some ty) \<Rightarrow>
          Some \<lparr>id_C = i, name = n, color = c, icon = ic, type_C = ty\<rparr>
      | _ \<Rightarrow> None)"
| "Category_of_json v = None"

fun all_of :: "('a \<Rightarrow> 'b option) \<Rightarrow> 'a list \<Rightarrow> 'b list option" where
  "all_of f [] = Some []"
| "all_of f (x # xs) =
     (case f x of None \<Rightarrow> None
      | Some y \<Rightarrow> (case all_of f xs of None \<Rightarrow> None | Some ys \<Rightarrow> Some (y # ys)))"

fun FinancialData_of_json :: "json \<Rightarrow> FinancialData option" where
  "FinancialData_of_json (JObj kvs) =
     (case (map_of kvs ''transactions'', map_of kvs ''categories'') of
        (Some (JArr ts), Some (JArr cs)) \<Rightarrow>
          (case (all_of Transaction_of_json ts, all_of Category_of_json cs) of
             (Some ts', Some cs') \<Rightarrow> Some \<lparr>transactions = ts', categories = cs'\<rparr>
           | _ \<Rightarrow> None)
      | _ \<Rightarrow> None)"
| "FinancialData_of_json v = None"

section \<open>The data store (src/lib/storage.ts)\<close>

subsection \<open>Array helpers\<close>

text \<open>\<open>Array.prototype.findIndex\<close>: the index of the first element that passes, or \<open>-1\<close>.\<close>

fun findIndex :: "('a \<Rightarrow> bool) \<Rightarrow> 'a list \<Rightarrow> int" where
  "findIndex P [] = -1"
| "findIndex P (x # xs) =
     (if P x then 0 else (let i = findIndex P xs in if i = -1 then -1 else i + 1))"

text \<open>\<open>xs.splice(index, 1)\<close> for an index inside the array: what is left in \<open>xs\<close>.\<close>

definition splice1 :: "nat \<Rightarrow> 'a list \<Rightarrow> 'a list" where
  "splice1 index xs = take index xs @ drop (Suc index) xs"

subsection \<open>Persistence\<close>

text \<open>
  The value \<open>localStorage\<close> holds under \<open>STORAGE_KEY\<close>: \<open>None\<close> when \<open>getItem\<close> returns
  \<open>null\<close>.  \<open>setItem\<close> and \<open>removeItem\<close> are taken to succeed (the \<open>catch\<close> of \<open>saveData\<close>
  only logs what \<open>setItem\<close> throws; a write that fails lies outside this model).
\<close>

type_synonym localStorage = "json_text option"

text \<open>Accented letters of the source's literals, as UTF-8.\<close>

definition a_acute :: string where "a_acute = [CHR 0xC3, CHR 0xA1]"
definition a_tilde :: string where "a_tilde = [CHR 0xC3, CHR 0xA3]"
definition c_cedilla :: string where "c_cedilla = [CHR 0xC3, CHR 0xA7]"
definition e_acute :: string where "e_acute = [CHR 0xC3, CHR 0xA9]"
definition i_acute :: string where "i_acute = [CHR 0xC3, CHR 0xAD]"
definition o_tilde :: string where "o_tilde = [CHR 0xC3, CHR 0xB5]"
definition u_acute :: string where "u_acute = [CHR 0xC3, CHR 0xBA]"

definition defaultCategories :: "Category list" where
  "defaultCategories =
    [\<lparr>id_C = ''1'', name = ''Sal'' @ a_acute @ ''rio'', color = ''#10b981'',
      icon = ''Briefcase'', type_C = income\<rparr>,
     \<lparr>id_C = ''2'', name = ''Freelance'', color = ''#3b82f6'',
      icon = ''Laptop'', type_C = income\<rparr>,
     \<lparr>id_C = ''3'', name = ''Investimentos'', color = ''#8b5cf6'',
      icon = ''TrendingUp'', type_C = income\<rparr>,
     \<lparr>id_C = ''4'', name = ''Outros'', color = ''#6b7280'',
      icon = ''Plus'', type_C = income\<rparr>,
     \<lparr>id_C = ''5'', name = ''Alimenta'' @ c_cedilla @ a_tilde @ ''o'', color = ''#ef4444'',
      icon = ''UtensilsCrossed'', type_C = expense\<rparr>,
     \<lparr>id_C = ''6'', name = ''Transporte'', color = ''#f59e0b'',
      icon = ''Car'', type_C = expense\<rparr>,
     \<lparr>id_C = ''7'', name = ''Moradia'', color = ''#ec4899'',
      icon = ''Home'', type_C = expense\<rparr>,
     \<lparr>id_C = ''8'', name = ''Sa'' @ u_acute @ ''de'', color = ''#06b6d4'',
      icon = ''Heart'', type_C = expense\<rparr>,
     \<lparr>id_C = ''9'', name = ''Educa'' @ c_cedilla @ a_tilde @ ''o'', color = ''#8b5cf6'',
      icon = ''GraduationCap'', type_C = expense\<rparr>,
     \<lparr>id_C = ''10'', name = ''Lazer'', color = ''#14b8a6'',
      icon = ''Gamepad2'', type_C = expense\<rparr>,
     \<lparr>id_C = ''11'', name = ''Compras'', color = ''#f97316'',
      icon = ''ShoppingBag'', type_C = expense\<rparr>,
     \<lparr>id_C = ''12'', name = ''Contas'', color = ''#64748b'',
      icon = ''FileText'', type_C = expense\<rparr>]"

text \<open>\<open>initializeData\<close>: the parsed item, or the seed when there is no item (or an empty one,
  which is falsy and also does not parse) or when \<open>JSON.parse\<close> throws.  The seed holds the
  array \<open>defaultCategories\<close> itself; it is taken with its initial elements.  (A category
  operation on a seeded dataset changes that array in place and saves the item in the same
  call, so that the calls after it read the item.)\<close>

definition initializeData :: "localStorage \<Rightarrow> json" where
  "initializeData ls =
     (case ls of
        None \<Rightarrow> json_of_FinancialData \<lparr>transactions = [], categories = defaultCategories\<rparr>
      | Some stored \<Rightarrow>
          (case JSON_parse stored of
             Inr v \<Rightarrow> v
           | Inl e \<Rightarrow> json_of_FinancialData \<lparr>transactions = [], categories = defaultCategories\<rparr>))"

definition saveData :: "json \<Rightarrow> localStorage \<Rightarrow> localStorage" where
  "saveData data ls = Some (JSON_stringify data)"

definition getData :: "localStorage \<Rightarrow> json" where
  "getData ls = initializeData ls"

subsection \<open>Transactions\<close>

text \<open>
  Every operation takes the storage and returns its result with the storage afterwards.
  \<open>crypto.randomUUID()\<close> and \<open>new Date().toISOString()\<close> are inputs (\<open>uuid\<close>, \<open>now\<close>).
  The value \<open>getData()\<close> returns is read at its declared type \<open>FinancialData\<close>.
\<close>

definition addTransaction ::
  "string \<Rightarrow> string \<Rightarrow> NewTransaction \<Rightarrow> localStorage \<Rightarrow> (error + Transaction) \<times> localStorage" where
  "addTransaction uuid now transaction ls =
     (case FinancialData_of_json (getData ls) of
        None \<Rightarrow> (Inl IllTyped, ls)
      | Some data \<Rightarrow>
          (let newTransaction =
                 \<lparr>id_T = uuid, description = new_description transaction,
                  amount = new_amount transaction, categoryId = new_categoryId transaction,
                  date = new_date transaction, type_T = new_type transaction,
                  status = new_status transaction, notes_T = new_notes transaction,
                  createdAt = now, updatedAt = now\<rparr>;
               data' = data\<lparr>transactions := transactions data @ [newTransaction]\<rparr>
           in (Inr newTransaction, saveData (json_of_FinancialData data') ls)))"

text \<open>\<open>{...t, ...updates}\<close>: each property the patch has replaces the one of \<open>t\<close>.\<close>

definition spread_Transaction :: "Transaction \<Rightarrow> TransactionPatch \<Rightarrow> Transaction" where
  "spread_Transaction t updates =
     \<lparr>id_T = (case upd_id updates of None \<Rightarrow> id_T t | Some v \<Rightarrow> v),
      description = (case upd_description updates of None \<Rightarrow> description t | Some v \<Rightarrow> v),
      amount = (case upd_amount updates of None \<Rightarrow> amount t | Some v \<Rightarrow> v),
      categoryId = (case upd_categoryId updates of None \<Rightarrow> categoryId t | Some v \<Rightarrow> v),
      date = (case upd_date updates of None \<Rightarrow> date t | Some v \<Rightarrow> v),
      type_T = (case upd_type updates of None \<Rightarrow> type_T t | Some v \<Rightarrow> v),
      status = (case upd_status updates of None \<Rightarrow> status t | Some v \<Rightarrow> v),
      notes_T = (case upd_notes updates of None \<Rightarrow> notes_T t | Some v \<Rightarrow> Some v),
      createdAt = (case upd_createdAt updates of None \<Rightarrow> createdAt t | Some v \<Rightarrow> v),
      updatedAt = (case upd_updatedAt updates of None \<Rightarrow> updatedAt t | Some v \<Rightarrow> v)\<rparr>"

definition updateTransaction ::
  "string \<Rightarrow> string \<Rightarrow> TransactionPatch \<Rightarrow> localStorage
     \<Rightarrow> (error + Transaction option) \<times> localStorage" where
  "updateTransaction now i updates ls =
     (case FinancialData_of_json (getData ls) of
        None \<Rightarrow> (Inl IllTyped, ls)
      | Some data \<Rightarrow>
          (let index = findIndex (\<lambda>t. id_T t = i) (transactions data) in
           if index = -1 then (Inr None, ls)
           else
             (let ts = (transactions data)
                         [nat index := (spread_Transaction (transactions data ! nat index) updates)
                                         \<lparr>updatedAt := now\<rparr>];
                  data' = data\<lparr>transactions := ts\<rparr>
              in (Inr (Some (ts ! nat index)), saveData (json_of_FinancialData data') ls))))"

definition deleteTransaction :: "string \<Rightarrow> localStorage \<Rightarrow> (error + bool) \<times> localStorage" where
  "deleteTransaction i ls =
     (case FinancialData_of_json (getData ls) of
        None \<Rightarrow> (Inl IllTyped, ls)
      | Some data \<Rightarrow>
          (let index = findIndex (\<lambda>t. id_T t = i) (transactions data) in
           if index = -1 then (Inr False, ls)
           else
             (let data' = data\<lparr>transactions := splice1 (nat index) (transactions data)\<rparr>
              in (Inr True, saveData (json_of_FinancialData data') ls))))"

subsection \<open>Categories\<close>

definition spread_Category :: "Category \<Rightarrow> CategoryPatch \<Rightarrow> Category" where
  "spread_Category c updates =
     \<lparr>id_C = (case upd_id_C updates of None \<Rightarrow> id_C c | Some v \<Rightarrow> v),
      name = (case upd_name updates of None \<Rightarrow> name c | Some v \<Rightarrow> v),
      color = (case upd_color updates of None \<Rightarrow> color c | Some v \<Rightarrow> v),
      icon = (case upd_icon updates of None \<Rightarrow> icon c | Some v \<Rightarrow> v),
      type_C = (case upd_type_C updates of None \<Rightarrow> type_C c | Some v \<Rightarrow> v)\<rparr>"

definition updateCategory ::
  "string \<Rightarrow> CategoryPatch \<Rightarrow> localStorage \<Rightarrow> (error + Category option) \<times> localStorage" where
  "updateCategory i updates ls =
     (case FinancialData_of_json (getData ls) of
        None \<Rightarrow> (Inl IllTyped, ls)
      | Some data \<Rightarrow>
          (let index = findIndex (\<lambda>c. id_C c = i) (categories data) in
           if index = -1 then (Inr None, ls)
           else
             (let cs = (categories data)
                         [nat index := spread_Category (categories data ! nat index) updates];
                  data' = data\<lparr>categories := cs\<rparr>
              in (Inr (Some (cs ! nat index)), saveData (json_of_FinancialData data') ls))))"

definition deleteCategory_message :: string where
  "deleteCategory_message =
     ''N'' @ a_tilde @ ''o '' @ e_acute @ '' poss'' @ i_acute
       @ ''vel excluir categoria com transa'' @ c_cedilla @ o_tilde @ ''es associadas''"

definition deleteCategory :: "string \<Rightarrow> localStorage \<Rightarrow> (error + bool) \<times> localStorage" where
  "deleteCategory i ls =
     (case FinancialData_of_json (getData ls) of
        None \<Rightarrow> (Inl IllTyped, ls)
      | Some data \<Rightarrow>
          (let index = findIndex (\<lambda>c. id_C c = i) (categories data) in
           if index = -1 then (Inr False, ls)
           else
             (let hasTransactions = list_ex (\<lambda>t. categoryId t = i) (transactions data) in
              if hasTransactions then (Inl (Error deleteCategory_message), ls)
              else
                (let data' = data\<lparr>categories := splice1 (nat index) (categories data)\<rparr>
                 in (Inr True, saveData (json_of_FinancialData data') ls)))))"

subsection \<open>Export and import\<close>

definition exportData :: "localStorage \<Rightarrow> json_text" where
  "exportData ls = JSON_stringify (getData ls)"

text \<open>The body of the \<open>try\<close> of \<open>importData\<close> up to the call of \<open>saveData\<close>: the parsed value,
  or what was thrown.  \<open>||\<close> does not evaluate \<open>data.categories\<close> when \<open>!data.transactions\<close>
  holds.\<close>

definition importData_check :: "json_text \<Rightarrow> error + json" where
  "importData_check jsonString =
     (case JSON_parse jsonString of
        Inl e \<Rightarrow> Inl e
      | Inr data \<Rightarrow>
          (case get_prop data ''transactions'' of
             Inl e \<Rightarrow> Inl e
           | Inr t \<Rightarrow>
               if \<not> truthy t then Inl (Error (''Formato inv'' @ a_acute @ ''lido''))
               else
                 (case get_prop data ''categories'' of
                    Inl e \<Rightarrow> Inl e
                  | Inr c \<Rightarrow>
                      if \<not> truthy c then Inl (Error (''Formato inv'' @ a_acute @ ''lido''))
                      else Inr data)))"

definition importData :: "json_text \<Rightarrow> localStorage \<Rightarrow> bool \<times> localStorage" where
  "importData jsonString ls =
     (case importData_check jsonString of
        Inr data \<Rightarrow> (True, saveData data ls)
      | Inl e \<Rightarrow> (False, ls))"

definition clearAllData :: "localStorage \<Rightarrow> localStorage" where
  "clearAllData ls = None"

text \<open>Two readings of "the parsed result has a \<open>k\<close> collection": its property \<open>k\<close> is an
  array, or merely present.\<close>

definition has_collection :: "json \<Rightarrow> string \<Rightarrow> bool" where
  "has_collection data k =
     (case data of
        JObj kvs \<Rightarrow> (case map_of kvs k of Some (JArr xs) \<Rightarrow> True | _ \<Rightarrow> False)
      | _ \<Rightarrow> False)"

definition has_property :: "json \<Rightarrow> string \<Rightarrow> bool" where
  "has_property data k = (case data of JObj kvs \<Rightarrow> map_of kvs k \<noteq> None | _ \<Rightarrow> False)"

section \<open>Month-windowed aggregates (Dashboard.tsx, ChartsPanel.tsx, ExpensesView.tsx)\<close>

subsection \<open>Dates\<close>

text \<open>
  A valid JavaScript \<open>Date\<close>, seen through its local-time getters: year, month index
  (0 for January), day of the month and the milliseconds since local midnight.  Two dates
  compare as their wall-clock readings do (no clock change between them).  Years are full
  years: the constructor's reading of a year argument between 0 and 99 as 1900 to 1999 is not
  modelled.
\<close>

record Date =
  getFullYear :: int
  getMonth :: nat
  getDate :: nat
  timeOfDay :: nat

definition leap_year :: "int \<Rightarrow> bool" where
  "leap_year y = ((y mod 4 = 0 \<and> y mod 100 \<noteq> 0) \<or> y mod 400 = 0)"

definition days_in_month :: "int \<Rightarrow> nat \<Rightarrow> nat" where
  "days_in_month y m =
     (if m = 1 then (if leap_year y then 29 else 28)
      else if m = 3 \<or> m = 5 \<or> m = 8 \<or> m = 10 then 30 else 31)"

text \<open>\<open>new Date(year, monthIndex, day)\<close>, local midnight, for a day of the month or day 0 (the
  last day of the month before); a month index of 12 is January of the next year.  The
  components pass day 1 and day 0.\<close>

definition Date_new :: "int \<Rightarrow> nat \<Rightarrow> nat \<Rightarrow> Date" where
  "Date_new year monthIndex day =
     (let y = year + int (monthIndex div 12); m = monthIndex mod 12 in
      if day = 0 then
        (if m = 0 then \<lparr>getFullYear = y - 1, getMonth = 11, getDate = 31, timeOfDay = 0\<rparr>
         else \<lparr>getFullYear = y, getMonth = m - 1, getDate = days_in_month y (m - 1),
               timeOfDay = 0\<rparr>)
      else \<lparr>getFullYear = y, getMonth = m, getDate = day, timeOfDay = 0\<rparr>)"

text \<open>\<open>a <= b\<close> on two valid dates.\<close>

definition Date_le :: "Date \<Rightarrow> Date \<Rightarrow> bool" where
  "Date_le a b =
     (getFullYear a < getFullYear b
      \<or> (getFullYear a = getFullYear b
          \<and> (getMonth a < getMonth b
              \<or> (getMonth a = getMonth b
                  \<and> (getDate a < getDate b
                      \<or> (getDate a = getDate b \<and> timeOfDay a \<le> timeOfDay b))))))"

text \<open>
  \<open>new Date(t.date)\<close> depends on the form of the text and on the time zone: it is a parameter
  \<open>parseDate\<close> of every aggregate, \<open>None\<close> for an invalid date, against which \<open>>=\<close> and
  \<open><=\<close> are both false.

  The three components start with the same lines: the bounds of the month and the paid
  transactions between them.
\<close>

definition monthTransactions ::
  "(string \<Rightarrow> Date option) \<Rightarrow> Transaction list \<Rightarrow> Date \<Rightarrow> Transaction list" where
  "monthTransactions parseDate ts selectedMonth =
     (let monthStart = Date_new (getFullYear selectedMonth) (getMonth selectedMonth) 1;
          monthEnd = Date_new (getFullYear selectedMonth) (getMonth selectedMonth + 1) 0
      in filter (\<lambda>t. (case parseDate (date t) of
                         None \<Rightarrow> False
                       | Some d \<Rightarrow> Date_le monthStart d \<and> Date_le d monthEnd)
                      \<and> status t = paid) ts)"

subsection \<open>Dashboard: the summary\<close>

record Metrics =
  totalIncome :: real
  totalExpense :: real
  balance :: real
  dailyAverage :: real
  transactionCount :: nat

definition metrics :: "(string \<Rightarrow> Date option) \<Rightarrow> Transaction list \<Rightarrow> Date \<Rightarrow> Metrics" where
  "metrics parseDate ts selectedMonth =
     (let monthEnd = Date_new (getFullYear selectedMonth) (getMonth selectedMonth + 1) 0;
          monthTs = monthTransactions parseDate ts selectedMonth;
          income' = foldl (\<lambda>sum t. sum + amount t) 0 (filter (\<lambda>t. type_T t = income) monthTs);
          expense' = foldl (\<lambda>sum t. sum + amount t) 0 (filter (\<lambda>t. type_T t = expense) monthTs);
          balance' = income' - expense';
          daysInMonth = getDate monthEnd;
          dailyAverage' = expense' / real daysInMonth
      in \<lparr>totalIncome = income', totalExpense = expense', balance = balance',
          dailyAverage = dailyAverage', transactionCount = length monthTs\<rparr>)"

subsection \<open>Objects used as tables of numbers\<close>

text \<open>
  \<open>const table: { [key: string]: number } = {}\<close>: the own properties in the order of their
  creation.  The members every object inherits from \<open>Object.prototype\<close>:
\<close>

type_synonym number_table = "(string \<times> real) list"

definition Object_prototype_names :: "string list" where
  "Object_prototype_names =
     [''constructor'', ''__defineGetter__'', ''__defineSetter__'', ''hasOwnProperty'',
      ''__lookupGetter__'', ''__lookupSetter__'', ''isPrototypeOf'', ''propertyIsEnumerable'',
      ''toString'', ''valueOf'', ''__proto__'', ''toLocaleString'']"

text \<open>
  \<open>table[key] = (table[key] || 0) + v\<close>.  An own property is a number, and \<open>0\<close> is the only
  falsy one; a key never seen reads \<open>undefined\<close> and is created at the end.  For a key that
  names an inherited member the read finds that member (an object, truthy), \<open>+\<close> makes a
  string of it, and the table is no longer a table of numbers (for \<open>__proto__\<close> the
  assignment is dropped): the result is \<open>None\<close> and the model follows it no further.
\<close>

definition add_amount :: "number_table \<Rightarrow> string \<Rightarrow> real \<Rightarrow> number_table option" where
  "add_amount table key v =
     (case map_of table key of
        Some current \<Rightarrow> Some (AList.update key (current + v) table)
      | None \<Rightarrow>
          if key \<in> set Object_prototype_names then None
          else Some (table @ [(key, 0 + v)]))"

text \<open>\<open>xs.forEach(t => { table[key(t)] = (table[key(t)] || 0) + t.amount })\<close>.\<close>

fun forEach_add ::
  "(Transaction \<Rightarrow> string) \<Rightarrow> Transaction list \<Rightarrow> number_table \<Rightarrow> number_table option" where
  "forEach_add key [] table = Some table"
| "forEach_add key (t # ts) table =
     (case add_amount table (key t) (amount t) of
        None \<Rightarrow> None
      | Some table' \<Rightarrow> forEach_add key ts table')"

text \<open>Decimal digits: \<open>n.toString()\<close> for a natural number, and the value of a digit string.\<close>

fun toString :: "nat \<Rightarrow> string" where
  "toString n =
     (if n < 10 then [char_of (48 + n)] else toString (n div 10) @ [char_of (48 + n mod 10)])"

definition is_digit :: "char \<Rightarrow> bool" where
  "is_digit c = (48 \<le> (of_char c :: nat) \<and> (of_char c :: nat) \<le> 57)"

definition digits_value :: "string \<Rightarrow> nat" where
  "digits_value s = foldl (\<lambda>n c. 10 * n + ((of_char c :: nat) - 48)) 0 s"

text \<open>A key is an array index when it is the decimal numeral of a number below \<open>2^32 - 1\<close>.
  \<open>Object.entries\<close> lists the array indices first, in ascending order, then the other keys
  in the order of their creation.\<close>

definition array_index :: "string \<Rightarrow> nat option" where
  "array_index key =
     (if key \<noteq> [] \<and> list_all is_digit key \<and> (key = ''0'' \<or> hd key \<noteq> CHR ''0'')
         \<and> int (digits_value key) < 4294967295
      then Some (digits_value key) else None)"

definition Object_entries :: "number_table \<Rightarrow> (string \<times> real) list" where
  "Object_entries table =
     sort_key (\<lambda>(key, v). the (array_index key)) (filter (\<lambda>(key, v). array_index key \<noteq> None) table)
     @ filter (\<lambda>(key, v). array_index key = None) table"

text \<open>
  \<open>xs.sort(compare)\<close>: the sort is stable, and \<open>a\<close> stays before \<open>b\<close> unless
  \<open>compare(a, b) > 0\<close>.
\<close>

fun insert_sorted :: "('a \<Rightarrow> 'a \<Rightarrow> real) \<Rightarrow> 'a \<Rightarrow> 'a list \<Rightarrow> 'a list" where
  "insert_sorted compare x [] = [x]"
| "insert_sorted compare x (y # ys) =
     (if compare x y \<le> 0 then x # y # ys else y # insert_sorted compare x ys)"

definition sort_with :: "('a \<Rightarrow> 'a \<Rightarrow> real) \<Rightarrow> 'a list \<Rightarrow> 'a list" where
  "sort_with compare xs = foldr (insert_sorted compare) xs []"

subsection \<open>ChartsPanel: expenses by category\<close>

text \<open>An entry of \<open>pieData\<close>; \<open>name\<close>, \<open>value\<close> and \<open>color\<close> carry the suffix \<open>_P\<close>.\<close>

record PieEntry =
  name_P :: string
  value_P :: real
  color_P :: string

definition pieData ::
  "(string \<Rightarrow> Date option) \<Rightarrow> Transaction list \<Rightarrow> Category list \<Rightarrow> Date
     \<Rightarrow> PieEntry list option" where
  "pieData parseDate ts cs selectedMonth =
     (case forEach_add categoryId
             (filter (\<lambda>t. type_T t = expense)
                (monthTransactions parseDate ts selectedMonth)) [] of
        None \<Rightarrow> None
      | Some expensesByCategory \<Rightarrow>
          Some (sort_with (\<lambda>a b. value_P b - value_P a)
            (map (\<lambda>(key, total).
                    (let category = find (\<lambda>c. id_C c = key) cs in
                     \<lparr>name_P = (case category of
                                  None \<Rightarrow> ''Outros''
                                | Some c \<Rightarrow> if name c = [] then ''Outros'' else name c),
                      value_P = total,
                      color_P = (case category of
                                   None \<Rightarrow> ''#6b7280''
                                 | Some c \<Rightarrow> if color c = [] then ''#6b7280'' else color c)\<rparr>))
               (Object_entries expensesByCategory))))"

subsection \<open>ExpensesView: the daily histogram\<close>

datatype ViewMode = view_expenses | view_income | view_all

text \<open>An entry of \<open>chartData\<close>; \<open>date\<close> and \<open>value\<close> carry the suffix \<open>_D\<close>.\<close>

record DayEntry =
  date_D :: string
  value_D :: real

definition padStart :: "nat \<Rightarrow> char \<Rightarrow> string \<Rightarrow> string" where
  "padStart n c s = replicate (n - length s) c @ s"

text \<open>The key of a transaction in \<open>dailyData\<close>.  The getters of an invalid date return \<open>NaN\<close>.\<close>

definition day_key :: "Date option \<Rightarrow> string" where
  "day_key parsed =
     (case parsed of
        None \<Rightarrow> ''NaN/NaN''
      | Some d \<Rightarrow> padStart 2 (CHR ''0'') (toString (getDate d)) @ ''/''
                  @ padStart 2 (CHR ''0'') (toString (getMonth d + 1)))"

text \<open>\<open>s.split(sep)\<close> for a separator of one character: never an empty array.\<close>

fun split_str :: "char \<Rightarrow> string \<Rightarrow> string list" where
  "split_str sep [] = [[]]"
| "split_str sep (c # cs) =
     (if c = sep then [] # split_str sep cs
      else (case split_str sep cs of
              [] \<Rightarrow> [[c]]
            | w # ws \<Rightarrow> (c # w) # ws))"

text \<open>\<open>Number(s)\<close> on what a part of a key can be: a string of decimal digits has its value
  (the empty string 0); the part \<open>NaN\<close> of an invalid date, like every other string here, is
  \<open>NaN\<close>, written \<open>None\<close>.\<close>

definition Number :: "string \<Rightarrow> real option" where
  "Number s = (if list_all is_digit s then Some (real (digits_value s)) else None)"

text \<open>The comparison function of \<open>chartData\<close>: \<open>dayA - dayB\<close>, where a \<open>NaN\<close> result counts as
  0 in \<open>sort\<close>.\<close>

definition compare_days :: "DayEntry \<Rightarrow> DayEntry \<Rightarrow> real" where
  "compare_days a b =
     (let dayA = hd (map Number (split_str (CHR ''/'') (date_D a)));
          dayB = hd (map Number (split_str (CHR ''/'') (date_D b)))
      in case (dayA, dayB) of
           (Some x, Some y) \<Rightarrow> x - y
         | _ \<Rightarrow> 0)"

definition chartData ::
  "(string \<Rightarrow> Date option) \<Rightarrow> Transaction list \<Rightarrow> Date \<Rightarrow> ViewMode \<Rightarrow> DayEntry list option" where
  "chartData parseDate ts selectedMonth viewMode =
     (let filteredTransactions =
            filter (\<lambda>t. case viewMode of
                          view_expenses \<Rightarrow> type_T t = expense
                        | view_income \<Rightarrow> type_T t = income
                        | view_all \<Rightarrow> True)
              (monthTransactions parseDate ts selectedMonth)
      in case forEach_add (\<lambda>t. day_key (parseDate (date t))) filteredTransactions [] of
           None \<Rightarrow> None
         | Some dailyData \<Rightarrow>
             Some (sort_with compare_days
               (map (\<lambda>(key, total). \<lparr>date_D = key, value_D = total\<rparr>) (Object_entries dailyData))))"

section \<open>The aggregates as the specification words them\<close>

text \<open>
  The month window: the calendar days of the selected month, from the first to the last, each
  of them whole.  A transaction counts when it is paid and its date parses to a date in the
  window.
\<close>

definition in_month :: "Date \<Rightarrow> Date \<Rightarrow> bool" where
  "in_month selectedMonth d =
     (getFullYear d = getFullYear selectedMonth
      \<and> getMonth d = getMonth selectedMonth
      \<and> 1 \<le> getDate d
      \<and> getDate d \<le> days_in_month (getFullYear selectedMonth) (getMonth selectedMonth))"

definition paid_in_month :: "(string \<Rightarrow> Date option) \<Rightarrow> Date \<Rightarrow> Transaction \<Rightarrow> bool" where
  "paid_in_month parseDate selectedMonth t =
     (status t = paid
      \<and> (case parseDate (date t) of None \<Rightarrow> False | Some d \<Rightarrow> in_month selectedMonth d))"

text \<open>
  The summary as the specification words it: over the paid transactions of the window, the
  sum of the income amounts, the sum of the expense amounts, their difference, the expense
  sum by the number of days of the month, and the number of these transactions.
\<close>

definition summary :: "(string \<Rightarrow> Date option) \<Rightarrow> Transaction list \<Rightarrow> Date \<Rightarrow> Metrics" where
  "summary parseDate ts selectedMonth =
     \<lparr>totalIncome =
        sum_list (map amount
          (filter (\<lambda>t. paid_in_month parseDate selectedMonth t \<and> type_T t = income) ts)),
      totalExpense =
        sum_list (map amount
          (filter (\<lambda>t. paid_in_month parseDate selectedMonth t \<and> type_T t = expense) ts)),
      balance =
        sum_list (map amount
          (filter (\<lambda>t. paid_in_month parseDate selectedMonth t \<and> type_T t = income) ts))
        - sum_list (map amount
          (filter (\<lambda>t. paid_in_month parseDate selectedMonth t \<and> type_T t = expense) ts)),
      dailyAverage =
        sum_list (map amount
          (filter (\<lambda>t. paid_in_month parseDate selectedMonth t \<and> type_T t = expense) ts))
        / real (days_in_month (getFullYear selectedMonth) (getMonth selectedMonth)),
      transactionCount = length (filter (paid_in_month parseDate selectedMonth) ts)\<rparr>"

text \<open>
  What the components' own window leaves out of the month: \<open>monthEnd\<close> is the midnight that
  begins the last day, and the test is \<open>date <= monthEnd\<close>, so a date on the last day is kept
  only at 00:00.
\<close>

definition after_last_midnight :: "Date \<Rightarrow> Date \<Rightarrow> bool" where
  "after_last_midnight selectedMonth d =
     (getDate d = days_in_month (getFullYear selectedMonth) (getMonth selectedMonth)
      \<and> 0 < timeOfDay d)"

definition late_on_last_day :: "(string \<Rightarrow> Date option) \<Rightarrow> Date \<Rightarrow> Transaction \<Rightarrow> bool" where
  "late_on_last_day parseDate selectedMonth t =
     (case parseDate (date t) of
        None \<Rightarrow> False
      | Some d \<Rightarrow> after_last_midnight selectedMonth d)"

text \<open>The sum of the amounts of the transactions that carry the key \<open>k\<close>.\<close>

definition group_total :: "(Transaction \<Rightarrow> string) \<Rightarrow> Transaction list \<Rightarrow> string \<Rightarrow> real" where
  "group_total key ts k = sum_list (map amount (filter (\<lambda>t. key t = k) ts))"

text \<open>The value a table holds under a key, 0 for a key it does not hold.\<close>

definition current_or_0 :: "number_table \<Rightarrow> string \<Rightarrow> real" where
  "current_or_0 table k = (case map_of table k of None \<Rightarrow> 0 | Some v \<Rightarrow> v)"

text \<open>
  The breakdown by category: the paid expenses of the month, and the entry of a category id.
  The name falls back to \<open>Outros\<close> and the color to \<open>#6b7280\<close> when no category carries
  the id, and also when the category's name (its color) is the empty string.
\<close>

definition paid_expenses ::
  "(string \<Rightarrow> Date option) \<Rightarrow> Date \<Rightarrow> Transaction list \<Rightarrow> Transaction list" where
  "paid_expenses parseDate selectedMonth ts =
     filter (\<lambda>t. paid_in_month parseDate selectedMonth t \<and> type_T t = expense) ts"

definition pie_entry :: "Category list \<Rightarrow> Transaction list \<Rightarrow> string \<Rightarrow> PieEntry" where
  "pie_entry cs es k =
     (case find (\<lambda>c. id_C c = k) cs of
        None \<Rightarrow>
          \<lparr>name_P = ''Outros'', value_P = group_total categoryId es k, color_P = ''#6b7280''\<rparr>
      | Some c \<Rightarrow>
          \<lparr>name_P = (if name c = [] then ''Outros'' else name c),
           value_P = group_total categoryId es k,
           color_P = (if color c = [] then ''#6b7280'' else color c)\<rparr>)"

text \<open>
  The daily histogram: the paid transactions of the month that pass the type filter; the
  zero-padded label \<open>dd/mm\<close> of a day and a month index; the number read from the day
  prefix of a label; and the entry of a label.
\<close>

definition passes_filter :: "ViewMode \<Rightarrow> Transaction \<Rightarrow> bool" where
  "passes_filter viewMode t =
     (case viewMode of
        view_expenses \<Rightarrow> type_T t = expense
      | view_income \<Rightarrow> type_T t = income
      | view_all \<Rightarrow> True)"

definition shown_transactions ::
  "(string \<Rightarrow> Date option) \<Rightarrow> Date \<Rightarrow> ViewMode \<Rightarrow> Transaction list \<Rightarrow> Transaction list" where
  "shown_transactions parseDate selectedMonth viewMode ts =
     filter (\<lambda>t. paid_in_month parseDate selectedMonth t \<and> passes_filter viewMode t) ts"

definition day_label :: "nat \<Rightarrow> nat \<Rightarrow> string" where
  "day_label day monthIndex =
     padStart 2 (CHR ''0'') (toString day) @ ''/'' @ padStart 2 (CHR ''0'') (toString (monthIndex + 1))"

definition label_day :: "string \<Rightarrow> nat" where
  "label_day label = digits_value (hd (split_str (CHR ''/'') label))"

definition day_entry :: "(string \<Rightarrow> Date option) \<Rightarrow> Transaction list \<Rightarrow> string \<Rightarrow> DayEntry" where
  "day_entry parseDate ts label =
     \<lparr>date_D = label, value_D = group_total (\<lambda>t. day_key (parseDate (date t))) ts label\<rparr>"

section \<open>Example data\<close>

text \<open>A small dataset over the seed categories, used to run the theorems on concrete input.\<close>

definition lunch :: Transaction where
  "lunch = \<lparr>id_T = ''6f1c2a9e-0b7d-4c1e-9a55-2d3e4f5a6b7c'', description = ''Lunch'', amount = 50,
     categoryId = ''5'', date = ''2024-03-10'', type_T = expense, status = paid, notes_T = None,
     createdAt = ''2024-03-10T12:00:00.000Z'', updatedAt = ''2024-03-10T12:00:00.000Z''\<rparr>"

definition salary :: Transaction where
  "salary = \<lparr>id_T = ''0d9e8f7a-6b5c-4d3e-8f2a-1b0c9d8e7f6a'', description = ''Salary'', amount = 1000,
     categoryId = ''1'', date = ''2024-03-03'', type_T = income, status = paid,
     notes_T = Some ''March'',
     createdAt = ''2024-03-03T09:00:00.000Z'', updatedAt = ''2024-03-03T09:00:00.000Z''\<rparr>"

definition example_data :: FinancialData where
  "example_data = \<lparr>transactions = [lunch, salary], categories = defaultCategories\<rparr>"

definition example_storage :: localStorage where
  "example_storage = saveData (json_of_FinancialData example_data) None"

text \<open>A persisted value with both collections whose records do not have the declared shape.\<close>

definition untyped_records :: json where
  "untyped_records =
     JObj [(''transactions'', JArr [JObj [(''id'', JNum 1), (''amount'', JNull)]]),
           (''categories'', JArr [])]"

definition set_id_13 :: TransactionPatch where
  "set_id_13 = \<lparr>upd_id = Some ''13'', upd_description = None, upd_amount = None,
     upd_categoryId = None, upd_date = None, upd_type = None, upd_status = None,
     upd_notes = None, upd_createdAt = None, upd_updatedAt = None\<rparr>"

definition coffee :: NewTransaction where
  "coffee = \<lparr>new_description = ''Coffee'', new_amount = 4.5, new_categoryId = ''5'',
     new_date = ''2024-03-11'', new_type = expense, new_status = pending, new_notes = None\<rparr>"

text \<open>March 2024, and the dates of the examples read as local midnight.\<close>

definition march :: Date where
  "march = \<lparr>getFullYear = 2024, getMonth = 2, getDate = 15, timeOfDay = 3600000\<rparr>"

definition utc_midnight :: "string \<Rightarrow> Date option" where
  "utc_midnight = map_of
     [(''2024-03-10'', \<lparr>getFullYear = 2024, getMonth = 2, getDate = 10, timeOfDay = 0\<rparr>),
      (''2024-03-03'', \<lparr>getFullYear = 2024, getMonth = 2, getDate = 3, timeOfDay = 0\<rparr>),
      (''2024-03-31'', \<lparr>getFullYear = 2024, getMonth = 2, getDate = 31, timeOfDay = 0\<rparr>),
      (''2024-04-01'', \<lparr>getFullYear = 2024, getMonth = 3, getDate = 1, timeOfDay = 0\<rparr>)]"

text \<open>A paid expense at noon of the last day of March, its date text read as local time.\<close>

definition late_lunch :: Transaction where
  "late_lunch = lunch\<lparr>id_T := ''a6'', date := ''2024-03-31T12:00:00''\<rparr>"

definition local_time :: "string \<Rightarrow> Date option" where
  "local_time = map_of
     [(''2024-03-31T12:00:00'',
       \<lparr>getFullYear = 2024, getMonth = 2, getDate = 31, timeOfDay = 43200000\<rparr>)]"

definition march_expenses :: "Transaction list" where
  "march_expenses =
     [lunch, salary,
      lunch\<lparr>id_T := ''a1'', categoryId := ''10'', amount := 70\<rparr>,
      lunch\<lparr>id_T := ''a2'', categoryId := ''deleted-category'', amount := 70\<rparr>,
      lunch\<lparr>id_T := ''a3'', amount := 5, date := ''2024-03-31''\<rparr>,
      lunch\<lparr>id_T := ''a4'', amount := 8, date := ''2024-04-01''\<rparr>,
      lunch\<lparr>id_T := ''a5'', amount := 200, status := pending\<rparr>]"

definition unnamed_category :: Category where
  "unnamed_category = \<lparr>id_C = ''5'', name = [], color = ''#ef4444'', icon = ''Tag'',
     type_C = expense\<rparr>"

section \<open>Properties of the data store\<close>

subsection \<open>Auxiliary facts\<close>

lemma type_of_json_of_type [simp]: "type_of_json (Some (json_of_type ty)) = Some ty"
  by (cases ty) (simp_all add: type_of_json_def json_of_type_def)

lemma status_of_json_of_status [simp]: "status_of_json (Some (json_of_status st)) = Some st"
  by (cases st) (simp_all add: status_of_json_def json_of_status_def)

lemma Transaction_of_json_of [simp]: "Transaction_of_json (json_of_Transaction t) = Some t"
  by (cases "notes_T t") (simp_all add: json_of_Transaction_def)

lemma Category_of_json_of [simp]: "Category_of_json (json_of_Category c) = Some c"
  by (simp add: json_of_Category_def)

lemma all_of_map: "(\<And>x. f (g x) = Some x) \<Longrightarrow> all_of f (map g xs) = Some xs"
  by (induction xs) simp_all

lemma FinancialData_of_json_of [simp]: "FinancialData_of_json (json_of_FinancialData d) = Some d"
  by (simp add: json_of_FinancialData_def all_of_map)

lemma getData_saveData [simp]: "getData (saveData v ls) = v"
  by (simp add: getData_def saveData_def initializeData_def JSON_parse_def JSON_stringify_def)

lemma findIndex_ge: "- 1 \<le> findIndex P xs"
  by (induction xs) (simp_all add: Let_def)

lemma findIndex_none: "(findIndex P xs = - 1) = (\<forall>x \<in> set xs. \<not> P x)"
proof (induction xs)
  case Nil
  show ?case by simp
next
  case (Cons x xs)
  have "- 1 \<le> findIndex P xs" by (rule findIndex_ge)
  with Cons show ?case by (auto simp: Let_def)
qed

lemma findIndex_some:
  "findIndex P xs \<noteq> - 1 \<Longrightarrow>
     0 \<le> findIndex P xs \<and> nat (findIndex P xs) < length xs \<and> P (xs ! nat (findIndex P xs))
     \<and> (\<forall>j < nat (findIndex P xs). \<not> P (xs ! j))"
proof (induction xs)
  case Nil
  then show ?case by simp
next
  case (Cons x xs)
  show ?case
  proof (cases "P x")
    case True
    then show ?thesis by simp
  next
    case False
    with Cons.prems have ne: "findIndex P xs \<noteq> - 1" by (auto simp: Let_def split: if_splits)
    note ih = Cons.IH [OF ne]
    from False ne have eq: "findIndex P (x # xs) = findIndex P xs + 1" by (simp add: Let_def)
    from ih have "0 \<le> findIndex P xs" by simp
    then have n: "nat (findIndex P xs + 1) = Suc (nat (findIndex P xs))" by linarith
    show ?thesis unfolding eq n using ih False
      by (auto simp: less_Suc_eq_0_disj)
  qed
qed


lemma splice1_findIndex:
  "findIndex P xs \<noteq> - 1 \<Longrightarrow>
     \<exists>y. find P xs = Some y \<and> splice1 (nat (findIndex P xs)) xs = remove1 y xs"
proof (induction xs)
  case Nil
  then show ?case by simp
next
  case (Cons x xs)
  show ?case
  proof (cases "P x")
    case True
    then show ?thesis by (simp add: splice1_def)
  next
    case False
    with Cons.prems have ne: "findIndex P xs \<noteq> - 1" by (auto simp: Let_def split: if_splits)
    from Cons.IH [OF ne] obtain y where y: "find P xs = Some y"
      and sp: "splice1 (nat (findIndex P xs)) xs = remove1 y xs" by blast
    from y have "P y" by (auto simp: find_Some_iff)
    with False have xy: "x \<noteq> y" by auto
    from findIndex_some [OF ne] have "0 \<le> findIndex P xs" by simp
    then have n: "nat (findIndex P xs + 1) = Suc (nat (findIndex P xs))" by linarith
    from False ne have eq: "findIndex P (x # xs) = findIndex P xs + 1" by (simp add: Let_def)
    have "splice1 (Suc (nat (findIndex P xs))) (x # xs) = x # splice1 (nat (findIndex P xs)) xs"
      by (simp add: splice1_def)
    with sp xy y False show ?thesis unfolding eq n by simp
  qed
qed

lemma find_distinct_ids:
  "distinct (map f xs) \<Longrightarrow> c \<in> set xs \<Longrightarrow> find (\<lambda>x. f x = f c) xs = Some c"
  by (induction xs) (auto simp: image_iff)

lemma example_storage_data:
  "FinancialData_of_json (getData example_storage) = Some example_data"
  by (simp add: example_storage_def)

lemma FinancialData_of_json_SomeD:
  "FinancialData_of_json j = Some d \<Longrightarrow>
     \<exists>kvs ts cs. j = JObj kvs \<and> map_of kvs ''transactions'' = Some (JArr ts)
        \<and> map_of kvs ''categories'' = Some (JArr cs)"
  by (cases j) (auto split: option.splits json.splits)

lemma importData_check_dataset:
  "FinancialData_of_json j = Some d \<Longrightarrow> importData_check (Serialised j) = Inr j"
  by (drule FinancialData_of_json_SomeD) (auto simp: importData_check_def JSON_parse_def)

lemma importData_check_collections:
  "has_collection j ''transactions'' \<Longrightarrow> has_collection j ''categories'' \<Longrightarrow>
     importData_check (Serialised j) = Inr j"
  by (cases j)
     (auto simp: has_collection_def importData_check_def JSON_parse_def
        split: option.splits json.splits)

subsection \<open>Deleting a category\<close>

text \<open>
  Claim C1.  In every dataset that holds a category \<open>c\<close>: when some transaction has
  \<open>categoryId = id c\<close>, \<open>deleteCategory (id c)\<close> throws an \<open>Error\<close> and the storage is left as it
  was (categories and transactions alike); when no transaction refers to \<open>id c\<close>, it returns
  \<open>true\<close> and the dataset persisted afterwards is the old one without one category, the first
  that carries this id, which is \<open>c\<close> itself when the ids of the categories are unique.
\<close>

theorem deleteCategory_guard:
  assumes d: "FinancialData_of_json (getData ls) = Some d"
    and c: "c \<in> set (categories d)"
  shows "((\<exists>t \<in> set (transactions d). categoryId t = id_C c) \<longrightarrow>
            deleteCategory (id_C c) ls = (Inl (Error deleteCategory_message), ls))
       \<and> ((\<forall>t \<in> set (transactions d). categoryId t \<noteq> id_C c) \<longrightarrow>
            (\<exists>c'. find (\<lambda>x. id_C x = id_C c) (categories d) = Some c'
                \<and> (distinct (map id_C (categories d)) \<longrightarrow> c' = c)
                \<and> fst (deleteCategory (id_C c) ls) = Inr True
                \<and> FinancialData_of_json (getData (snd (deleteCategory (id_C c) ls)))
                    = Some (d\<lparr>categories := remove1 c' (categories d)\<rparr>)))"
proof -
  let ?P = "\<lambda>x. id_C x = id_C c"
  from c have ne: "findIndex ?P (categories d) \<noteq> - 1" by (auto simp: findIndex_none)
  from splice1_findIndex [OF ne] obtain c' where f: "find ?P (categories d) = Some c'"
    and sp: "splice1 (nat (findIndex ?P (categories d))) (categories d) = remove1 c' (categories d)"
    by blast
  have u: "distinct (map id_C (categories d)) \<longrightarrow> c' = c"
    using find_distinct_ids [of id_C "categories d" c] c f by auto
  have g: "(\<exists>t \<in> set (transactions d). categoryId t = id_C c) \<longrightarrow>
            deleteCategory (id_C c) ls = (Inl (Error deleteCategory_message), ls)"
    using d ne by (simp add: deleteCategory_def list_ex_iff Let_def)
  have r: "(\<forall>t \<in> set (transactions d). categoryId t \<noteq> id_C c) \<longrightarrow>
        fst (deleteCategory (id_C c) ls) = Inr True
      \<and> FinancialData_of_json (getData (snd (deleteCategory (id_C c) ls)))
           = Some (d\<lparr>categories := remove1 c' (categories d)\<rparr>)"
    using d ne sp by (simp add: deleteCategory_def list_ex_iff Let_def)
  from g r f u show ?thesis by blast
qed

theorem deleteCategory_guard_witness:
  "deleteCategory ''5'' example_storage = (Inl (Error deleteCategory_message), example_storage)
   \<and> fst (deleteCategory ''6'' example_storage) = Inr True
   \<and> FinancialData_of_json (getData (snd (deleteCategory ''6'' example_storage)))
       = Some (example_data\<lparr>categories := remove1 (defaultCategories ! 5) defaultCategories\<rparr>)"
  using deleteCategory_guard [OF example_storage_data, of "defaultCategories ! 4"]
    deleteCategory_guard [OF example_storage_data, of "defaultCategories ! 5"]
  by (simp add: example_data_def lunch_def salary_def defaultCategories_def)

text \<open>
  Claim C10.  For an id that no category carries, \<open>deleteCategory\<close> returns \<open>false\<close>, throws
  nothing and leaves the storage as it was, whatever the transactions are: the search for the
  category comes before the test for referring transactions.  The example has a transaction
  that refers to the absent id.
\<close>

theorem deleteCategory_absent:
  "FinancialData_of_json (getData ls) = Some d \<Longrightarrow> i \<notin> id_C ` set (categories d) \<Longrightarrow>
     deleteCategory i ls = (Inr False, ls)"
proof -
  assume d: "FinancialData_of_json (getData ls) = Some d" and i: "i \<notin> id_C ` set (categories d)"
  from i have "findIndex (\<lambda>c. id_C c = i) (categories d) = - 1"
    by (auto simp: findIndex_none)
  with d show ?thesis by (simp add: deleteCategory_def)
qed

theorem deleteCategory_absent_witness:
  "categoryId lunch = ''5'' \<and> deleteCategory ''5''
      (saveData (json_of_FinancialData \<lparr>transactions = [lunch], categories = []\<rparr>) None)
    = (Inr False, saveData (json_of_FinancialData \<lparr>transactions = [lunch], categories = []\<rparr>) None)"
  using deleteCategory_absent [of "saveData (json_of_FinancialData \<lparr>transactions = [lunch], categories = []\<rparr>) None"
      "\<lparr>transactions = [lunch], categories = []\<rparr>" "''5''"]
  by (simp add: lunch_def)

subsection \<open>Updates and deletions of absent records\<close>

text \<open>
  Claim C5.  For an id that no transaction carries, \<open>updateTransaction\<close> returns \<open>null\<close> and
  \<open>deleteTransaction\<close> returns \<open>false\<close>; for an id that no category carries, \<open>updateCategory\<close>
  returns \<open>null\<close>.  None of them throws, and the storage afterwards is the storage before.
\<close>

theorem not_found_sentinel:
  "FinancialData_of_json (getData ls) = Some d \<Longrightarrow>
     (i \<notin> id_T ` set (transactions d) \<longrightarrow>
        updateTransaction now i updates ls = (Inr None, ls)
        \<and> deleteTransaction i ls = (Inr False, ls))
     \<and> (i \<notin> id_C ` set (categories d) \<longrightarrow>
        updateCategory i cupdates ls = (Inr None, ls))"
proof -
  assume d: "FinancialData_of_json (getData ls) = Some d"
  have t: "i \<notin> id_T ` set (transactions d) \<Longrightarrow> findIndex (\<lambda>t. id_T t = i) (transactions d) = - 1"
    by (auto simp: findIndex_none)
  have c: "i \<notin> id_C ` set (categories d) \<Longrightarrow> findIndex (\<lambda>c. id_C c = i) (categories d) = - 1"
    by (auto simp: findIndex_none)
  show ?thesis
    using d t c by (simp add: updateTransaction_def deleteTransaction_def updateCategory_def)
qed

theorem not_found_sentinel_witness:
  "updateTransaction ''2024-04-01T08:00:00.000Z'' ''13''
       \<lparr>upd_id = None, upd_description = Some ''Dinner'', upd_amount = Some 70,
        upd_categoryId = None, upd_date = None, upd_type = None, upd_status = None,
        upd_notes = None, upd_createdAt = None, upd_updatedAt = None\<rparr> example_storage
     = (Inr None, example_storage)
   \<and> deleteTransaction ''13'' example_storage = (Inr False, example_storage)
   \<and> updateCategory ''13''
       \<lparr>upd_id_C = None, upd_name = Some ''Pets'', upd_color = None, upd_icon = None,
        upd_type_C = None\<rparr> example_storage
     = (Inr None, example_storage)"
  using not_found_sentinel [OF example_storage_data, of "''13''"]
  by (simp add: example_data_def lunch_def salary_def defaultCategories_def)

subsection \<open>Adding a transaction\<close>

text \<open>
  What \<open>addTransaction\<close> itself decides (the part of claim C6 that does not rest on the
  generator): it returns the supplied fields with \<open>id\<close> set to the identifier that
  \<open>crypto.randomUUID()\<close> produced and \<open>createdAt = updatedAt\<close> set to the current time; the
  record is appended at the end of the transactions and the categories are unchanged.  The
  function compares the identifier with nothing: that it is new among the stored ids is a
  property of the random generator, of which this model says nothing.
\<close>

lemma addTransaction_appends:
  assumes d: "FinancialData_of_json (getData ls) = Some d"
  shows "\<exists>t. fst (addTransaction uuid now transaction ls) = Inr t
          \<and> t = \<lparr>id_T = uuid, description = new_description transaction,
                  amount = new_amount transaction, categoryId = new_categoryId transaction,
                  date = new_date transaction, type_T = new_type transaction,
                  status = new_status transaction, notes_T = new_notes transaction,
                  createdAt = now, updatedAt = now\<rparr>
          \<and> createdAt t = updatedAt t
          \<and> FinancialData_of_json (getData (snd (addTransaction uuid now transaction ls)))
              = Some \<lparr>transactions = transactions d @ [t], categories = categories d\<rparr>"
  using d by (simp add: addTransaction_def Let_def)

lemma addTransaction_appends_example:
  "fst (addTransaction ''3b241101-e2bb-4255-8caf-4136c566a962'' ''2024-03-11T10:00:00.000Z''
          coffee example_storage)
     = Inr \<lparr>id_T = ''3b241101-e2bb-4255-8caf-4136c566a962'', description = ''Coffee'',
            amount = 4.5, categoryId = ''5'',
            date = ''2024-03-11'', type_T = expense, status = pending, notes_T = None,
            createdAt = ''2024-03-11T10:00:00.000Z'', updatedAt = ''2024-03-11T10:00:00.000Z''\<rparr>
   \<and> FinancialData_of_json (getData (snd (addTransaction ''3b241101-e2bb-4255-8caf-4136c566a962''
          ''2024-03-11T10:00:00.000Z'' coffee example_storage)))
     = Some \<lparr>transactions = [lunch, salary,
          \<lparr>id_T = ''3b241101-e2bb-4255-8caf-4136c566a962'', description = ''Coffee'',
            amount = 4.5, categoryId = ''5'',
            date = ''2024-03-11'', type_T = expense, status = pending, notes_T = None,
            createdAt = ''2024-03-11T10:00:00.000Z'', updatedAt = ''2024-03-11T10:00:00.000Z''\<rparr>],
        categories = defaultCategories\<rparr>"
  using addTransaction_appends [OF example_storage_data,
      of "''3b241101-e2bb-4255-8caf-4136c566a962''" "''2024-03-11T10:00:00.000Z''" coffee]
  by (simp add: example_data_def coffee_def lunch_def salary_def)

subsection \<open>Updating a transaction\<close>

text \<open>
  Claim C9, as amended.  For a stored transaction with id \<open>i\<close> and a patch that does not set
  \<open>id\<close> (or sets it to \<open>i\<close>), the record \<open>updateTransaction\<close> returns and the record stored
  in its place carry the id \<open>i\<close>, and the sequence of stored ids is unchanged.
\<close>

theorem updateTransaction_keeps_id:
  assumes d: "FinancialData_of_json (getData ls) = Some d"
    and i: "i \<in> id_T ` set (transactions d)"
    and u: "upd_id updates = None \<or> upd_id updates = Some i"
  shows "\<exists>k t'. k < length (transactions d) \<and> id_T (transactions d ! k) = i
           \<and> fst (updateTransaction now i updates ls) = Inr (Some t')
           \<and> id_T t' = i
           \<and> FinancialData_of_json (getData (snd (updateTransaction now i updates ls)))
               = Some (d\<lparr>transactions := (transactions d)[k := t']\<rparr>)
           \<and> map id_T ((transactions d)[k := t']) = map id_T (transactions d)"
proof -
  let ?ts = "transactions d"
  let ?k = "nat (findIndex (\<lambda>t. id_T t = i) ?ts)"
  let ?t' = "(spread_Transaction (?ts ! ?k) updates)\<lparr>updatedAt := now\<rparr>"
  from i have ne: "findIndex (\<lambda>t. id_T t = i) ?ts \<noteq> - 1" by (auto simp: findIndex_none)
  from findIndex_some [OF ne] have k: "?k < length ?ts" and ik: "id_T (?ts ! ?k) = i" by simp_all
  from u ik have it: "id_T ?t' = i" by (auto simp: spread_Transaction_def)
  have r: "fst (updateTransaction now i updates ls) = Inr (Some ?t')"
    using d ne k by (simp add: updateTransaction_def Let_def)
  have p: "FinancialData_of_json (getData (snd (updateTransaction now i updates ls)))
      = Some (d\<lparr>transactions := ?ts[?k := ?t']\<rparr>)"
    using d ne by (simp add: updateTransaction_def Let_def)
  have m: "map id_T (?ts[?k := ?t']) = map id_T ?ts"
    using k ik it by (simp add: map_update list_update_same_conv)
  from k ik it r p m show ?thesis by blast
qed

theorem updateTransaction_keeps_id_witness:
  "fst (updateTransaction ''2024-04-01T08:00:00.000Z'' (id_T salary)
         (set_id_13\<lparr>upd_id := None, upd_amount := Some 1200\<rparr>) example_storage)
     = Inr (Some (salary\<lparr>amount := 1200, updatedAt := ''2024-04-01T08:00:00.000Z''\<rparr>))
   \<and> id_T (salary\<lparr>amount := 1200, updatedAt := ''2024-04-01T08:00:00.000Z''\<rparr>) = id_T salary"
proof -
  have i: "id_T salary \<in> id_T ` set (transactions example_data)"
    by (simp add: example_data_def)
  have u: "upd_id (set_id_13\<lparr>upd_id := None, upd_amount := Some 1200\<rparr>) = None
      \<or> upd_id (set_id_13\<lparr>upd_id := None, upd_amount := Some 1200\<rparr>) = Some (id_T salary)"
    by simp
  from updateTransaction_keeps_id [OF example_storage_data i u, of "''2024-04-01T08:00:00.000Z''"]
  show ?thesis
    by (simp add: updateTransaction_def example_storage_data example_data_def
        spread_Transaction_def set_id_13_def lunch_def salary_def)
qed

text \<open>As stated, C9 holds for every patch.  \<open>Partial<Transaction>\<close> admits a patch with an
  \<open>id\<close>, and the spread \<open>{...stored, ...updates}\<close> lets it replace the stored id.\<close>

theorem updateTransaction_id_counterexample:
  "fst (updateTransaction ''2024-04-01T08:00:00.000Z'' (id_T lunch) set_id_13 example_storage)
     = Inr (Some (lunch\<lparr>id_T := ''13'', updatedAt := ''2024-04-01T08:00:00.000Z''\<rparr>))
   \<and> FinancialData_of_json
        (getData (snd (updateTransaction ''2024-04-01T08:00:00.000Z'' (id_T lunch) set_id_13
           example_storage)))
     = Some (example_data\<lparr>transactions :=
          [lunch\<lparr>id_T := ''13'', updatedAt := ''2024-04-01T08:00:00.000Z''\<rparr>, salary]\<rparr>)
   \<and> id_T lunch \<noteq> ''13''"
  by (simp add: updateTransaction_def example_storage_data example_data_def
      spread_Transaction_def set_id_13_def lunch_def salary_def)

text \<open>In general, a patch that supplies an \<open>id\<close> gives it to the record returned.\<close>

lemma updateTransaction_replaces_id:
  assumes d: "FinancialData_of_json (getData ls) = Some d"
    and i: "i \<in> id_T ` set (transactions d)"
    and u: "upd_id updates = Some j"
  shows "\<exists>t'. fst (updateTransaction now i updates ls) = Inr (Some t') \<and> id_T t' = j"
proof -
  let ?ts = "transactions d"
  let ?k = "nat (findIndex (\<lambda>t. id_T t = i) ?ts)"
  from i have ne: "findIndex (\<lambda>t. id_T t = i) ?ts \<noteq> - 1" by (auto simp: findIndex_none)
  from findIndex_some [OF ne] have k: "?k < length ?ts" by simp
  show ?thesis
    using d ne k u by (simp add: updateTransaction_def Let_def spread_Transaction_def)
qed

subsection \<open>Export and import\<close>

text \<open>
  Claim C3.  For every dataset the store can return (a persisted one or the seed, of the
  declared shape or with records of any shape in its two collections), importing the text
  that \<open>exportData\<close> produced returns \<open>true\<close>, and the dataset persisted afterwards is the
  one that was exported.
\<close>

theorem export_import_roundtrip:
  assumes "FinancialData_of_json (getData ls) = Some d
     \<or> (has_collection (getData ls) ''transactions'' \<and> has_collection (getData ls) ''categories'')"
  shows "fst (importData (exportData ls) ls) = True
     \<and> getData (snd (importData (exportData ls) ls)) = getData ls
     \<and> FinancialData_of_json (getData (snd (importData (exportData ls) ls)))
         = FinancialData_of_json (getData ls)"
proof -
  from assms have "importData_check (Serialised (getData ls)) = Inr (getData ls)"
    by (auto simp: importData_check_dataset importData_check_collections)
  then show ?thesis
    by (simp add: importData_def exportData_def JSON_stringify_def)
qed

theorem export_import_roundtrip_witness:
  "fst (importData (exportData example_storage) example_storage) = True
   \<and> FinancialData_of_json (getData (snd (importData (exportData example_storage) example_storage)))
       = Some example_data
   \<and> fst (importData (exportData None) None) = True
   \<and> FinancialData_of_json (getData (snd (importData (exportData None) None)))
       = Some \<lparr>transactions = [], categories = defaultCategories\<rparr>
   \<and> importData (exportData (Some (Serialised untyped_records))) (Some (Serialised untyped_records))
       = (True, Some (Serialised untyped_records))"
proof -
  have seed: "FinancialData_of_json (getData None)
      = Some \<lparr>transactions = [], categories = defaultCategories\<rparr>"
    by (simp add: getData_def initializeData_def)
  have u: "getData (Some (Serialised untyped_records)) = untyped_records"
    by (simp add: getData_def initializeData_def JSON_parse_def)
  have c: "has_collection (getData (Some (Serialised untyped_records))) ''transactions''
      \<and> has_collection (getData (Some (Serialised untyped_records))) ''categories''"
    unfolding u by (simp add: has_collection_def untyped_records_def)
  have t: "importData (exportData (Some (Serialised untyped_records)))
        (Some (Serialised untyped_records)) = (True, Some (Serialised untyped_records))"
    using c unfolding u
    by (simp add: importData_def exportData_def u JSON_stringify_def saveData_def
        importData_check_collections)
  show ?thesis
    using export_import_roundtrip [OF disjI1, OF example_storage_data]
      export_import_roundtrip [OF disjI1, OF seed]
      export_import_roundtrip [OF disjI2, OF c]
    by (simp add: example_storage_data seed t)
qed

text \<open>
  Claim C4, as amended.  \<open>importData\<close> never throws.  It returns \<open>false\<close> and leaves the
  storage as it was when the text does not parse, when the parsed value is \<open>null\<close>, and when
  the property \<open>transactions\<close> or the property \<open>categories\<close> of the parsed value is missing
  or falsy (so in particular when the value has neither property).  Otherwise it returns
  \<open>true\<close> and the storage holds the parsed value, whole, in place of what it held.
\<close>

theorem importData_outcome:
  "(JSON_parse jsonString = Inl e \<longrightarrow> importData jsonString ls = (False, ls))
   \<and> (JSON_parse jsonString = Inr data \<longrightarrow>
        (\<not> has_property data ''transactions'' \<or> \<not> has_property data ''categories'' \<longrightarrow>
           importData jsonString ls = (False, ls))
        \<and> importData jsonString ls =
            (if data \<noteq> JNull
                \<and> (\<exists>t c. get_prop data ''transactions'' = Inr t \<and> truthy t
                        \<and> get_prop data ''categories'' = Inr c \<and> truthy c)
             then (True, Some (JSON_stringify data)) else (False, ls)))
   \<and> (fst (importData jsonString ls) = False \<longrightarrow> snd (importData jsonString ls) = ls)
   \<and> (fst (importData jsonString ls) = True \<longrightarrow>
        JSON_parse jsonString = Inr (getData (snd (importData jsonString ls))))"
proof -
  have a: "JSON_parse jsonString = Inl e \<longrightarrow> importData jsonString ls = (False, ls)"
    by (simp add: importData_def importData_check_def)
  have b: "JSON_parse jsonString = Inr data \<longrightarrow>
        importData jsonString ls =
            (if data \<noteq> JNull
                \<and> (\<exists>t c. get_prop data ''transactions'' = Inr t \<and> truthy t
                        \<and> get_prop data ''categories'' = Inr c \<and> truthy c)
             then (True, Some (JSON_stringify data)) else (False, ls))"
    by (cases data)
       (auto simp: importData_def importData_check_def saveData_def)
  have c: "JSON_parse jsonString = Inr data \<longrightarrow>
        (\<not> has_property data ''transactions'' \<or> \<not> has_property data ''categories'' \<longrightarrow>
           importData jsonString ls = (False, ls))"
    by (cases data)
       (auto simp: importData_def importData_check_def has_property_def)
  have d: "fst (importData jsonString ls) = False \<longrightarrow> snd (importData jsonString ls) = ls"
    by (simp add: importData_def split: sum.splits)
  have e: "fst (importData jsonString ls) = True \<longrightarrow>
        JSON_parse jsonString = Inr (getData (snd (importData jsonString ls)))"
    by (auto simp: importData_def importData_check_def split: sum.splits if_splits)
  from a b c d e show ?thesis by blast
qed

theorem importData_outcome_witness:
  "importData Malformed example_storage = (False, example_storage)
   \<and> importData (Serialised (JObj [(''transactions'', JArr [])])) example_storage
       = (False, example_storage)
   \<and> importData (Serialised JNull) example_storage = (False, example_storage)
   \<and> importData (Serialised (json_of_FinancialData \<lparr>transactions = [salary], categories = []\<rparr>))
         example_storage
       = (True, Some (Serialised (json_of_FinancialData \<lparr>transactions = [salary], categories = []\<rparr>)))"
  using importData_outcome [of Malformed SyntaxError example_storage]
    importData_outcome [of "Serialised (JObj [(''transactions'', JArr [])])" _ example_storage
       "JObj [(''transactions'', JArr [])]"]
    importData_outcome [of "Serialised JNull" _ example_storage JNull]
    importData_outcome [of "Serialised (json_of_FinancialData \<lparr>transactions = [salary], categories = []\<rparr>)"
       _ example_storage "json_of_FinancialData \<lparr>transactions = [salary], categories = []\<rparr>"]
  by (simp add: JSON_parse_def JSON_stringify_def has_property_def json_of_FinancialData_def)

text \<open>As stated, C4 promises \<open>false\<close> for a parsed value without a transactions collection and
  without a categories collection.  The test is \<open>!data.transactions || !data.categories\<close>: a
  truthy value that is no collection passes it and is persisted.\<close>

theorem importData_collection_counterexample:
  "\<not> has_collection (JObj [(''transactions'', JNum 1), (''categories'', JStr ''x'')]) ''transactions''
   \<and> \<not> has_collection (JObj [(''transactions'', JNum 1), (''categories'', JStr ''x'')]) ''categories''
   \<and> importData (Serialised (JObj [(''transactions'', JNum 1), (''categories'', JStr ''x'')]))
        example_storage
      = (True, Some (Serialised (JObj [(''transactions'', JNum 1), (''categories'', JStr ''x'')])))"
  by (simp add: has_collection_def importData_def importData_check_def JSON_parse_def
      saveData_def JSON_stringify_def)

section \<open>Properties of the aggregates\<close>

subsection \<open>Auxiliary facts: the month window\<close>

lemma month_start: "m < 12 \<Longrightarrow>
    Date_new y m (Suc 0) = \<lparr>getFullYear = y, getMonth = m, getDate = 1, timeOfDay = 0\<rparr>"
  by (simp add: Date_new_def)

lemma month_end: "m < 12 \<Longrightarrow>
    Date_new y (Suc m) 0
      = \<lparr>getFullYear = y, getMonth = m, getDate = days_in_month y m, timeOfDay = 0\<rparr>"
proof (cases "m = 11")
  case True
  then show ?thesis by (simp add: Date_new_def days_in_month_def)
next
  case False
  assume "m < 12"
  with False have "Suc m < 12" by simp
  then have "Suc m div 12 = 0" "Suc m mod 12 = Suc m" by simp_all
  then show ?thesis by (simp add: Date_new_def Let_def)
qed

lemma days_in_month_bounds: "28 \<le> days_in_month y m \<and> days_in_month y m \<le> 31"
  by (simp add: days_in_month_def)

lemma window_bounds:
  "(Date_le \<lparr>getFullYear = getFullYear s, getMonth = getMonth s, getDate = Suc 0,
             timeOfDay = 0\<rparr> d
    \<and> Date_le d \<lparr>getFullYear = getFullYear s, getMonth = getMonth s,
          getDate = days_in_month (getFullYear s) (getMonth s), timeOfDay = 0\<rparr>)
   = (in_month s d \<and> \<not> after_last_midnight s d)"
  by (auto simp: Date_le_def in_month_def after_last_midnight_def)

lemma monthTransactions_filter:
  "getMonth s < 12 \<Longrightarrow>
     monthTransactions parseDate ts s
       = filter (\<lambda>t. paid_in_month parseDate s t \<and> \<not> late_on_last_day parseDate s t) ts"
  by (auto simp: monthTransactions_def month_start month_end window_bounds paid_in_month_def
      late_on_last_day_def intro!: filter_cong split: option.splits)

lemma monthTransactions_on_time:
  assumes "getMonth s < 12"
    and "\<forall>t \<in> set ts. paid_in_month parseDate s t \<and> P t \<longrightarrow> \<not> late_on_last_day parseDate s t"
  shows "filter P (monthTransactions parseDate ts s)
           = filter (\<lambda>t. paid_in_month parseDate s t \<and> P t) ts"
  using assms by (auto simp: monthTransactions_filter intro!: filter_cong)

lemma in_month_fields:
  "in_month s d \<Longrightarrow>
     getFullYear d = getFullYear s \<and> getMonth d = getMonth s
     \<and> 1 \<le> getDate d \<and> getDate d \<le> days_in_month (getFullYear s) (getMonth s)"
  by (simp add: in_month_def)

lemma foldl_plus: "foldl (\<lambda>sum t. sum + f t) a xs = a + sum_list (map f xs)"
  by (induction xs arbitrary: a) (simp_all add: add.assoc)

subsection \<open>Auxiliary facts: tables, entries and sorting\<close>

lemma add_amount_update:
  "key \<notin> set Object_prototype_names \<Longrightarrow>
     add_amount table key v = Some (AList.update key (current_or_0 table key + v) table)"
proof (cases "map_of table key")
  case None
  assume "key \<notin> set Object_prototype_names"
  moreover from None have "key \<notin> fst ` set table" by (simp add: map_of_eq_None_iff)
  then have "AList.update key v table = table @ [(key, v)]"
    by (induction table) auto
  ultimately show ?thesis using None by (simp add: add_amount_def current_or_0_def)
next
  case (Some a)
  then show ?thesis by (simp add: add_amount_def current_or_0_def)
qed

lemma current_or_0_update:
  "current_or_0 (AList.update key v table) k = (if k = key then v else current_or_0 table k)"
  by (simp add: current_or_0_def update_conv')

lemma forEach_add_result:
  assumes "\<forall>t \<in> set ts. key t \<notin> set Object_prototype_names"
    and "distinct (map fst table)"
  shows "\<exists>table'. forEach_add key ts table = Some table'
           \<and> distinct (map fst table')
           \<and> set (map fst table') = set (map fst table) \<union> key ` set ts
           \<and> (\<forall>k. current_or_0 table' k
                  = current_or_0 table k + sum_list (map amount (filter (\<lambda>t. key t = k) ts)))"
  using assms
proof (induction ts arbitrary: table)
  case Nil
  then show ?case by simp
next
  case (Cons t ts)
  let ?t1 = "AList.update (key t) (current_or_0 table (key t) + amount t) table"
  from Cons.prems have a: "add_amount table (key t) (amount t) = Some ?t1"
    by (simp add: add_amount_update)
  have d1: "distinct (map fst ?t1)" using Cons.prems by (simp add: distinct_update)
  from Cons.prems have "\<forall>t \<in> set ts. key t \<notin> set Object_prototype_names" by simp
  from Cons.IH [OF this d1] obtain table' where
    r: "forEach_add key ts ?t1 = Some table'" and d: "distinct (map fst table')"
    and s: "set (map fst table') = set (map fst ?t1) \<union> key ` set ts"
    and v: "\<forall>k. current_or_0 table' k
              = current_or_0 ?t1 k + sum_list (map amount (filter (\<lambda>t. key t = k) ts))"
    by blast
  have s1: "set (map fst ?t1) = insert (key t) (set (map fst table))"
    by (auto simp: update_keys)
  have "forEach_add key (t # ts) table = Some table'" using a r by simp
  moreover have "set (map fst table') = set (map fst table) \<union> key ` set (t # ts)"
    using s s1 by auto
  moreover have "\<forall>k. current_or_0 table' k
       = current_or_0 table k + sum_list (map amount (filter (\<lambda>t. key t = k) (t # ts)))"
    using v by (simp add: current_or_0_update)
  ultimately show ?case using d by blast
qed

lemma distinct_table_eq:
  assumes "distinct (map fst table)"
  shows "table = map (\<lambda>k. (k, current_or_0 table k)) (map fst table)"
proof -
  have "\<And>p. p \<in> set table \<Longrightarrow> p = (fst p, current_or_0 table (fst p))"
    using assms by (auto simp: current_or_0_def)
  then show ?thesis by (simp add: map_idI [symmetric] comp_def cong: map_cong) 
qed

lemma forEach_add_groups:
  assumes "\<forall>t \<in> set ts. key t \<notin> set Object_prototype_names"
  shows "\<exists>table. forEach_add key ts [] = Some table
           \<and> mset table = image_mset (\<lambda>k. (k, group_total key ts k)) (mset (remdups (map key ts)))"
proof -
  from forEach_add_result [OF assms, of "[]"] obtain table where
    r: "forEach_add key ts [] = Some table" and d: "distinct (map fst table)"
    and s: "set (map fst table) = key ` set ts"
    and v: "\<forall>k. current_or_0 table k = group_total key ts k"
    by (auto simp: current_or_0_def group_total_def)
  have "set (map fst table) = set (remdups (map key ts))" using s by simp
  with d have "mset (map fst table) = mset (remdups (map key ts))"
    using set_eq_iff_mset_eq_distinct [of "map fst table" "remdups (map key ts)"] by blast
  moreover have "table = map (\<lambda>k. (k, group_total key ts k)) (map fst table)"
    using distinct_table_eq [OF d] v by simp
  ultimately have "mset table
      = image_mset (\<lambda>k. (k, group_total key ts k)) (mset (remdups (map key ts)))"
    by (metis mset_map)
  with r show ?thesis by blast
qed

lemma mset_Object_entries: "mset (Object_entries table) = mset table"
proof -
  have "mset (filter (\<lambda>(key, v). array_index key \<noteq> None) table)
        + mset (filter (\<lambda>(key, v). array_index key = None) table) = mset table"
    by (induction table) auto
  then show ?thesis by (simp add: Object_entries_def)
qed

lemma insert_sorted_insort_key:
  "\<forall>y \<in> set ys. (compare x y \<le> 0) = (g x \<le> g y) \<Longrightarrow>
     insert_sorted compare x ys = insort_key g x ys"
  by (induction ys) simp_all

lemma sort_with_sort_key:
  "\<forall>x \<in> set xs. \<forall>y \<in> set xs. (compare x y \<le> 0) = (g x \<le> g y) \<Longrightarrow>
     sort_with compare xs = sort_key g xs"
proof (induction xs)
  case Nil
  show ?case by (simp add: sort_with_def)
next
  case (Cons x xs)
  then have ih: "sort_with compare xs = sort_key g xs" by simp
  have "\<forall>y \<in> set (sort_key g xs). (compare x y \<le> 0) = (g x \<le> g y)"
    using Cons.prems by simp
  then have "insert_sorted compare x (sort_key g xs) = insort_key g x (sort_key g xs)"
    by (rule insert_sorted_insort_key)
  with ih show ?case by (simp add: sort_with_def)
qed

lemma sorted_descending:
  "sorted (map (\<lambda>e. - f e) xs) = sorted_wrt (\<lambda>a b. (f b :: real) \<le> f a) xs"
  by (simp add: sorted_map)

subsection \<open>Auxiliary facts: digits and labels\<close>

declare toString.simps [simp del]

lemma digit_chars:
  "char_of (48 :: nat) = CHR ''0''" "char_of (49 :: nat) = CHR ''1''"
  "char_of (50 :: nat) = CHR ''2''" "char_of (51 :: nat) = CHR ''3''"
  "char_of (52 :: nat) = CHR ''4''" "char_of (53 :: nat) = CHR ''5''"
  "char_of (54 :: nat) = CHR ''6''" "char_of (55 :: nat) = CHR ''7''"
  "char_of (56 :: nat) = CHR ''8''" "char_of (57 :: nat) = CHR ''9''"
  by (simp_all add: char_of_def bit_0)

lemma digits_value_snoc:
  "digits_value (s @ [c]) = 10 * digits_value s + ((of_char c :: nat) - 48)"
  by (simp add: digits_value_def)

lemma toString_digits:
  "list_all is_digit (toString n) \<and> digits_value (toString n) = n"
proof (induction n rule: toString.induct)
  case (1 n)
  show ?case
  proof (cases "n < 10")
    case True
    then show ?thesis
      by (subst (1 2) toString.simps) (simp add: is_digit_def digits_value_def)
  next
    case False
    have d: "n mod 10 < 10" by simp
    from False 1 have ih: "list_all is_digit (toString (n div 10))"
      "digits_value (toString (n div 10)) = n div 10" by simp_all
    have c: "(of_char (char_of (48 + n mod 10)) :: nat) = 48 + n mod 10"
      using d by simp
    from False ih c show ?thesis
      by (subst (1 2) toString.simps) (simp add: is_digit_def digits_value_snoc)
  qed
qed

lemma padStart_digits:
  "list_all is_digit s \<Longrightarrow> list_all is_digit (padStart n (CHR ''0'') s)"
  by (auto simp: padStart_def is_digit_def list_all_iff)

lemma digits_value_zeros: "digits_value (replicate k (CHR ''0'') @ s) = digits_value s"
proof -
  have "\<And>a. foldl (\<lambda>n c. 10 * n + ((of_char c :: nat) - 48)) 0 (replicate k (CHR ''0'')) = 0"
    by (induction k) simp_all
  then show ?thesis by (simp add: digits_value_def)
qed

lemma padStart_value: "digits_value (padStart n (CHR ''0'') s) = digits_value s"
  by (simp add: padStart_def digits_value_zeros)

lemma split_str_nonempty: "split_str sep s \<noteq> []"
  by (induction s) (auto split: list.splits)

lemma hd_split_str: "sep \<notin> set a \<Longrightarrow> hd (split_str sep (a @ sep # b)) = a"
proof (induction a)
  case Nil
  show ?case by simp
next
  case (Cons c a)
  then have "hd (split_str sep (a @ sep # b)) = a" by simp
  with Cons.prems split_str_nonempty [of sep "a @ sep # b"] show ?case
    by (cases "split_str sep (a @ sep # b)") auto
qed

lemma digit_not_slash: "list_all is_digit s \<Longrightarrow> CHR ''/'' \<notin> set s"
  by (auto simp: list_all_iff is_digit_def)

lemma day_key_label: "day_key (Some d) = day_label (getDate d) (getMonth d)"
  by (simp add: day_key_def day_label_def)

lemma day_label_prefix:
  "hd (split_str (CHR ''/'') (day_label day m)) = padStart 2 (CHR ''0'') (toString day)"
proof -
  have "CHR ''/'' \<notin> set (padStart 2 (CHR ''0'') (toString day))"
    by (simp add: digit_not_slash padStart_digits toString_digits)
  then show ?thesis
    unfolding day_label_def using hd_split_str [of "CHR ''/''"] by simp
qed

lemma label_day_day_label: "label_day (day_label day m) = day"
  by (simp add: label_day_def day_label_prefix padStart_value toString_digits)

lemma Number_day_label:
  "Number (hd (split_str (CHR ''/'') (day_label day m))) = Some (real day)"
  by (simp add: Number_def day_label_prefix padStart_value padStart_digits toString_digits)

lemma day_label_not_inherited: "day_label day m \<notin> set Object_prototype_names"
proof -
  have "CHR ''/'' \<in> set (day_label day m)" by (simp add: day_label_def)
  moreover have "\<forall>n \<in> set Object_prototype_names. CHR ''/'' \<notin> set n"
    by (simp add: Object_prototype_names_def)
  ultimately show ?thesis by blast
qed

lemma compare_days_labels:
  "compare_days \<lparr>date_D = day_label x m, value_D = v\<rparr> \<lparr>date_D = day_label y m', value_D = w\<rparr>
     = real x - real y"
  using split_str_nonempty [of "CHR ''/''" "day_label x m"]
    split_str_nonempty [of "CHR ''/''" "day_label y m'"]
  by (simp add: compare_days_def hd_map Number_day_label)

lemma shown_transactions_dates:
  assumes "t \<in> set (shown_transactions parseDate s viewMode ts)"
  shows "\<exists>d. parseDate (date t) = Some d \<and> in_month s d
           \<and> day_key (parseDate (date t)) = day_label (getDate d) (getMonth s)"
proof -
  from assms have "paid_in_month parseDate s t" by (simp add: shown_transactions_def)
  then obtain d where d: "parseDate (date t) = Some d" and i: "in_month s d"
    by (auto simp: paid_in_month_def split: option.splits)
  from in_month_fields [OF i] d i show ?thesis by (simp add: day_key_label)
qed

subsection \<open>The examples, evaluated\<close>

lemmas example_defs = march_expenses_def lunch_def salary_def utc_midnight_def march_def
  defaultCategories_def

lemma paid_expenses_march:
  "paid_expenses utc_midnight march march_expenses =
     [lunch,
      lunch\<lparr>id_T := ''a1'', categoryId := ''10'', amount := 70\<rparr>,
      lunch\<lparr>id_T := ''a2'', categoryId := ''deleted-category'', amount := 70\<rparr>,
      lunch\<lparr>id_T := ''a3'', amount := 5, date := ''2024-03-31''\<rparr>]"
  by (simp add: paid_expenses_def paid_in_month_def in_month_def days_in_month_def
      leap_year_def example_defs)

lemma pieData_march:
  "pieData utc_midnight march_expenses defaultCategories march =
     Some [\<lparr>name_P = ''Lazer'', value_P = 70, color_P = ''#14b8a6''\<rparr>,
           \<lparr>name_P = ''Outros'', value_P = 70, color_P = ''#6b7280''\<rparr>,
           \<lparr>name_P = ''Alimenta'' @ c_cedilla @ a_tilde @ ''o'', value_P = 55,
            color_P = ''#ef4444''\<rparr>]"
  by (simp add: pieData_def monthTransactions_def Date_new_def Date_le_def days_in_month_def
      leap_year_def add_amount_def Object_prototype_names_def Object_entries_def
      array_index_def is_digit_def digits_value_def sort_with_def example_defs)

lemma chartData_march:
  "chartData utc_midnight march_expenses march view_all =
     Some [\<lparr>date_D = ''03/03'', value_D = 1000\<rparr>,
           \<lparr>date_D = ''10/03'', value_D = 190\<rparr>,
           \<lparr>date_D = ''31/03'', value_D = 5\<rparr>]"
  by (simp add: chartData_def monthTransactions_def Date_new_def Date_le_def days_in_month_def
      leap_year_def add_amount_def Object_prototype_names_def Object_entries_def
      array_index_def is_digit_def digits_value_def sort_with_def example_defs
      day_key_def padStart_def toString.simps digit_chars compare_days_def Number_def)

subsection \<open>The summary\<close>

text \<open>
  Where no paid transaction of the month is dated on the last day after midnight, \<open>metrics\<close>
  is the summary of the specification; the number of days it divides by is positive.
\<close>

lemma metrics_on_time:
  assumes m: "getMonth selectedMonth < 12"
    and h: "\<forall>t \<in> set ts. paid_in_month parseDate selectedMonth t
              \<longrightarrow> \<not> late_on_last_day parseDate selectedMonth t"
  shows "metrics parseDate ts selectedMonth = summary parseDate ts selectedMonth"
proof -
  from h have i: "\<forall>t \<in> set ts. paid_in_month parseDate selectedMonth t \<and> type_T t = income
      \<longrightarrow> \<not> late_on_last_day parseDate selectedMonth t" by blast
  from h have e: "\<forall>t \<in> set ts. paid_in_month parseDate selectedMonth t \<and> type_T t = expense
      \<longrightarrow> \<not> late_on_last_day parseDate selectedMonth t" by blast
  from h have a: "\<forall>t \<in> set ts. paid_in_month parseDate selectedMonth t \<and> True
      \<longrightarrow> \<not> late_on_last_day parseDate selectedMonth t" by blast
  have "filter (\<lambda>t. True) (monthTransactions parseDate ts selectedMonth)
      = filter (\<lambda>t. paid_in_month parseDate selectedMonth t \<and> True) ts"
    using m a by (rule monthTransactions_on_time)
  then have all: "monthTransactions parseDate ts selectedMonth
      = filter (paid_in_month parseDate selectedMonth) ts" by simp
  show ?thesis
    using m
    by (simp add: metrics_def summary_def Let_def month_end foldl_plus
        monthTransactions_on_time [OF m i] monthTransactions_on_time [OF m e] all [symmetric])
qed

lemma metrics_on_time_example:
  "metrics utc_midnight
      [lunch, salary, lunch\<lparr>amount := 200, status := pending\<rparr>,
       lunch\<lparr>amount := 8, date := ''2024-04-01''\<rparr>] march
     = \<lparr>totalIncome = 1000, totalExpense = 50, balance = 950, dailyAverage = 50 / 31,
        transactionCount = 2\<rparr>
   \<and> metrics utc_midnight [] march
     = \<lparr>totalIncome = 0, totalExpense = 0, balance = 0, dailyAverage = 0, transactionCount = 0\<rparr>"
proof -
  have m: "getMonth march < 12" by (simp add: march_def)
  have h: "\<forall>t \<in> set [lunch, salary, lunch\<lparr>amount := 200, status := pending\<rparr>,
                       lunch\<lparr>amount := 8, date := ''2024-04-01''\<rparr>].
             paid_in_month utc_midnight march t \<longrightarrow> \<not> late_on_last_day utc_midnight march t"
    by (simp add: late_on_last_day_def after_last_midnight_def utc_midnight_def lunch_def
        salary_def)
  have e: "\<forall>t \<in> set []. paid_in_month utc_midnight march t
             \<longrightarrow> \<not> late_on_last_day utc_midnight march t" by simp
  show ?thesis
    using metrics_on_time [OF m h] metrics_on_time [OF m e]
    by (simp add: summary_def paid_in_month_def in_month_def days_in_month_def leap_year_def
        utc_midnight_def march_def lunch_def salary_def)
qed

text \<open>
  Claim C2.  The summary keeps the paid transactions whose date falls in the month window
  and returns the income sum, the expense sum, their difference, the expense sum by the
  number of days, and the count.  The code departs from it on the last day of the month: a
  paid expense of 50 at noon of 31 March lies in the window of March, so that the summary
  has expense 50, balance -50, daily average 50/31 and count 1, while \<open>metrics\<close> returns five
  zeros.
\<close>

theorem metrics_last_day:
  "metrics local_time [late_lunch] march
     = \<lparr>totalIncome = 0, totalExpense = 0, balance = 0, dailyAverage = 0, transactionCount = 0\<rparr>
   \<and> summary local_time [late_lunch] march
     = \<lparr>totalIncome = 0, totalExpense = 50, balance = - 50, dailyAverage = 50 / 31,
        transactionCount = 1\<rparr>
   \<and> paid_in_month local_time march late_lunch"
  by (simp add: metrics_def monthTransactions_def Date_new_def Date_le_def summary_def
      paid_in_month_def in_month_def days_in_month_def leap_year_def local_time_def
      late_lunch_def lunch_def march_def)

subsection \<open>Expenses by category\<close>

text \<open>
  Claim C7, as amended.  Take the paid expenses of the month window, none of them dated on
  the last day after midnight and none with a category id that names a member every object
  inherits.  \<open>pieData\<close> has one entry for each category id among them (none is left out),
  with the sum of the amounts of that id; the entry carries the name and color of the first
  category with the id, the label \<open>Outros\<close> when there is no such category or its name is
  empty, and the color \<open>#6b7280\<close> when there is no such category or its color is empty; the
  entries are in descending order of amount.
\<close>

theorem pieData_breakdown:
  assumes m: "getMonth selectedMonth < 12"
    and h: "\<forall>t \<in> set (paid_expenses parseDate selectedMonth ts).
              \<not> late_on_last_day parseDate selectedMonth t
              \<and> categoryId t \<notin> set Object_prototype_names"
  shows "\<exists>entries. pieData parseDate ts cs selectedMonth = Some entries
           \<and> mset entries
               = image_mset (pie_entry cs (paid_expenses parseDate selectedMonth ts))
                   (mset (remdups (map categoryId (paid_expenses parseDate selectedMonth ts))))
           \<and> sorted_wrt (\<lambda>a b. value_P b \<le> value_P a) entries"
proof -
  let ?E = "paid_expenses parseDate selectedMonth ts"
  let ?mk = "\<lambda>(key, total).
       (let category = find (\<lambda>c. id_C c = key) cs in
        \<lparr>name_P = (case category of
                     None \<Rightarrow> ''Outros''
                   | Some c \<Rightarrow> if name c = [] then ''Outros'' else name c),
         value_P = total,
         color_P = (case category of
                      None \<Rightarrow> ''#6b7280''
                    | Some c \<Rightarrow> if color c = [] then ''#6b7280'' else color c)\<rparr>)"
  from h have k: "\<forall>t \<in> set ?E. categoryId t \<notin> set Object_prototype_names" by blast
  from h have "\<forall>t \<in> set ts. paid_in_month parseDate selectedMonth t \<and> type_T t = expense
      \<longrightarrow> \<not> late_on_last_day parseDate selectedMonth t"
    by (simp add: paid_expenses_def)
  with m have E: "filter (\<lambda>t. type_T t = expense) (monthTransactions parseDate ts selectedMonth)
      = ?E"
    unfolding paid_expenses_def by (rule monthTransactions_on_time)
  from forEach_add_groups [OF k] obtain table where
    t: "forEach_add categoryId ?E [] = Some table"
    and g: "mset table = image_mset (\<lambda>k. (k, group_total categoryId ?E k))
              (mset (remdups (map categoryId ?E)))"
    by blast
  let ?entries = "sort_with (\<lambda>a b. value_P b - value_P a) (map ?mk (Object_entries table))"
  have p: "pieData parseDate ts cs selectedMonth = Some ?entries"
    using t by (simp add: pieData_def E)
  have s: "?entries = sort_key (\<lambda>e. - value_P e) (map ?mk (Object_entries table))"
    by (rule sort_with_sort_key) simp
  have mk: "\<And>k. ?mk (k, group_total categoryId ?E k) = pie_entry cs ?E k"
    by (simp add: pie_entry_def Let_def split: option.splits)
  have "mset ?entries = image_mset ?mk (mset table)"
    unfolding s by (simp add: mset_Object_entries)
  also have "\<dots> = image_mset (\<lambda>k. ?mk (k, group_total categoryId ?E k))
                     (mset (remdups (map categoryId ?E)))"
    unfolding g by (simp add: image_mset.compositionality comp_def)
  also have "\<dots> = image_mset (pie_entry cs ?E) (mset (remdups (map categoryId ?E)))"
    by (rule image_mset_cong) (rule mk)
  finally have ms: "mset ?entries
      = image_mset (pie_entry cs ?E) (mset (remdups (map categoryId ?E)))" .
  have "sorted (map (\<lambda>e. - value_P e) ?entries)"
    unfolding s by (rule sorted_sort_key)
  then have so: "sorted_wrt (\<lambda>a b. value_P b \<le> value_P a) ?entries"
    by (simp only: sorted_descending)
  from p ms so show ?thesis by blast
qed

theorem pieData_breakdown_witness:
  "pieData utc_midnight march_expenses defaultCategories march =
     Some [\<lparr>name_P = ''Lazer'', value_P = 70, color_P = ''#14b8a6''\<rparr>,
           \<lparr>name_P = ''Outros'', value_P = 70, color_P = ''#6b7280''\<rparr>,
           \<lparr>name_P = ''Alimenta'' @ c_cedilla @ a_tilde @ ''o'', value_P = 55,
            color_P = ''#ef4444''\<rparr>]
   \<and> mset [\<lparr>name_P = ''Lazer'', value_P = 70, color_P = ''#14b8a6''\<rparr>,
           \<lparr>name_P = ''Outros'', value_P = 70, color_P = ''#6b7280''\<rparr>,
           \<lparr>name_P = ''Alimenta'' @ c_cedilla @ a_tilde @ ''o'', value_P = 55,
            color_P = ''#ef4444''\<rparr>]
     = image_mset (pie_entry defaultCategories (paid_expenses utc_midnight march march_expenses))
         (mset (remdups (map categoryId (paid_expenses utc_midnight march march_expenses))))"
proof -
  have m: "getMonth march < 12" by (simp add: march_def)
  have h: "\<forall>t \<in> set (paid_expenses utc_midnight march march_expenses).
             \<not> late_on_last_day utc_midnight march t
             \<and> categoryId t \<notin> set Object_prototype_names"
    unfolding paid_expenses_march
    by (simp add: Object_prototype_names_def late_on_last_day_def after_last_midnight_def
        utc_midnight_def lunch_def)
  from pieData_breakdown [OF m h, of defaultCategories] show ?thesis
    by (simp add: pieData_march)
qed

text \<open>As stated, C7 gives every group with a matching category that category's name.
  \<open>category?.name || 'Outros'\<close> replaces an empty name as well.\<close>

theorem pieData_name_counterexample:
  "pieData utc_midnight [lunch] [unnamed_category] march
     = Some [\<lparr>name_P = ''Outros'', value_P = 50, color_P = ''#ef4444''\<rparr>]
   \<and> find (\<lambda>c. id_C c = categoryId lunch) [unnamed_category] = Some unnamed_category
   \<and> name unnamed_category \<noteq> ''Outros''"
  by (simp add: pieData_def monthTransactions_def Date_new_def Date_le_def days_in_month_def
      leap_year_def add_amount_def Object_prototype_names_def Object_entries_def
      array_index_def is_digit_def digits_value_def sort_with_def example_defs
      unnamed_category_def)

text \<open>The two cases the amended claim leaves aside: a category id that names an inherited
  member takes the table out of the numbers, and an expense later on the last day is in no
  group.\<close>

lemma pieData_inherited_name:
  "pieData utc_midnight [lunch\<lparr>categoryId := ''__proto__''\<rparr>] defaultCategories march = None"
  by (simp add: pieData_def monthTransactions_def Date_new_def Date_le_def days_in_month_def
      leap_year_def add_amount_def Object_prototype_names_def example_defs)

lemma pieData_last_day:
  "pieData local_time [late_lunch] defaultCategories march = Some []"
  by (simp add: pieData_def monthTransactions_def Date_new_def Date_le_def days_in_month_def
      leap_year_def local_time_def late_lunch_def lunch_def march_def Object_entries_def
      sort_with_def)

subsection \<open>The daily histogram\<close>

text \<open>
  Where no paid transaction of the month that passes the filter is dated on the last day
  after midnight, \<open>chartData\<close> has one entry for each day label among these transactions,
  with the sum of their amounts; each label is the zero-padded day, a slash and the
  zero-padded month, and reads back as the day; the entries are in ascending order of the
  number read from the day prefix.
\<close>

lemma chartData_on_time:
  assumes m: "getMonth selectedMonth < 12"
    and h: "\<forall>t \<in> set (shown_transactions parseDate selectedMonth viewMode ts).
              \<not> late_on_last_day parseDate selectedMonth t"
  shows "\<exists>entries. chartData parseDate ts selectedMonth viewMode = Some entries
           \<and> mset entries
               = image_mset
                   (day_entry parseDate (shown_transactions parseDate selectedMonth viewMode ts))
                   (mset (remdups (map (\<lambda>t. day_key (parseDate (date t)))
                      (shown_transactions parseDate selectedMonth viewMode ts))))
           \<and> sorted (map (\<lambda>e. label_day (date_D e)) entries)
           \<and> (\<forall>t \<in> set (shown_transactions parseDate selectedMonth viewMode ts).
                 \<exists>d. parseDate (date t) = Some d
                   \<and> getFullYear d = getFullYear selectedMonth
                   \<and> getMonth d = getMonth selectedMonth
                   \<and> 1 \<le> getDate d
                   \<and> getDate d \<le> days_in_month (getFullYear selectedMonth) (getMonth selectedMonth)
                   \<and> day_key (parseDate (date t)) = day_label (getDate d) (getMonth selectedMonth)
                   \<and> label_day (day_key (parseDate (date t))) = getDate d)"
proof -
  let ?F = "shown_transactions parseDate selectedMonth viewMode ts"
  let ?key = "\<lambda>t. day_key (parseDate (date t))"
  let ?mk = "\<lambda>(key, total). \<lparr>date_D = key, value_D = total\<rparr>"
  have F: "filter (\<lambda>t. case viewMode of
                          view_expenses \<Rightarrow> type_T t = expense
                        | view_income \<Rightarrow> type_T t = income
                        | view_all \<Rightarrow> True)
              (monthTransactions parseDate ts selectedMonth) = ?F"
  proof -
    from h have "\<forall>t \<in> set ts. paid_in_month parseDate selectedMonth t \<and> passes_filter viewMode t
        \<longrightarrow> \<not> late_on_last_day parseDate selectedMonth t"
      by (simp add: shown_transactions_def)
    with m have "filter (passes_filter viewMode) (monthTransactions parseDate ts selectedMonth) = ?F"
      unfolding shown_transactions_def by (rule monthTransactions_on_time)
    then show ?thesis by (simp add: passes_filter_def [abs_def])
  qed
  have dates: "\<forall>t \<in> set ?F. \<exists>d. parseDate (date t) = Some d
                   \<and> getFullYear d = getFullYear selectedMonth
                   \<and> getMonth d = getMonth selectedMonth
                   \<and> 1 \<le> getDate d
                   \<and> getDate d \<le> days_in_month (getFullYear selectedMonth) (getMonth selectedMonth)
                   \<and> ?key t = day_label (getDate d) (getMonth selectedMonth)
                   \<and> label_day (?key t) = getDate d"
  proof
    fix t assume "t \<in> set ?F"
    from shown_transactions_dates [OF this] obtain d where
      d: "parseDate (date t) = Some d" and i: "in_month selectedMonth d"
      and k: "?key t = day_label (getDate d) (getMonth selectedMonth)" by blast
    from in_month_fields [OF i] d k
    show "\<exists>d. parseDate (date t) = Some d
                   \<and> getFullYear d = getFullYear selectedMonth
                   \<and> getMonth d = getMonth selectedMonth
                   \<and> 1 \<le> getDate d
                   \<and> getDate d \<le> days_in_month (getFullYear selectedMonth) (getMonth selectedMonth)
                   \<and> ?key t = day_label (getDate d) (getMonth selectedMonth)
                   \<and> label_day (?key t) = getDate d"
      by (simp add: label_day_day_label)
  qed
  have keys: "\<forall>t \<in> set ?F. \<exists>x. ?key t = day_label x (getMonth selectedMonth)"
    using dates by blast
  then have "\<forall>t \<in> set ?F. ?key t \<notin> set Object_prototype_names"
    using day_label_not_inherited by metis
  from forEach_add_groups [OF this] obtain table where
    t: "forEach_add ?key ?F [] = Some table"
    and g: "mset table = image_mset (\<lambda>k. (k, group_total ?key ?F k))
              (mset (remdups (map ?key ?F)))"
    by blast
  let ?pre = "map ?mk (Object_entries table)"
  let ?entries = "sort_with compare_days ?pre"
  have c: "chartData parseDate ts selectedMonth viewMode = Some ?entries"
    using t by (simp add: chartData_def F)
  have "set_mset (mset table)
      = set_mset (image_mset (\<lambda>k. (k, group_total ?key ?F k)) (mset (remdups (map ?key ?F))))"
    by (simp only: g)
  then have "set table = (\<lambda>k. (k, group_total ?key ?F k)) ` set (map ?key ?F)"
    by simp
  then have lab: "\<forall>e \<in> set ?pre. \<exists>x v. e = \<lparr>date_D = day_label x (getMonth selectedMonth), value_D = v\<rparr>"
    using keys mset_Object_entries [of table]
    by (auto dest!: mset_eq_setD)
  have "\<forall>a \<in> set ?pre. \<forall>b \<in> set ?pre.
          (compare_days a b \<le> 0) = (label_day (date_D a) \<le> label_day (date_D b))"
  proof (intro ballI)
    fix a b assume "a \<in> set ?pre" "b \<in> set ?pre"
    with lab obtain x v y w where
      "a = \<lparr>date_D = day_label x (getMonth selectedMonth), value_D = v\<rparr>"
      "b = \<lparr>date_D = day_label y (getMonth selectedMonth), value_D = w\<rparr>" by blast
    then show "(compare_days a b \<le> 0) = (label_day (date_D a) \<le> label_day (date_D b))"
      by (simp add: compare_days_labels label_day_day_label)
  qed
  then have s: "?entries = sort_key (\<lambda>e. label_day (date_D e)) ?pre"
    by (rule sort_with_sort_key)
  have "mset ?entries = image_mset ?mk (mset table)"
    unfolding s by (simp add: mset_Object_entries)
  also have "\<dots> = image_mset (\<lambda>k. ?mk (k, group_total ?key ?F k)) (mset (remdups (map ?key ?F)))"
    unfolding g by (simp add: image_mset.compositionality comp_def)
  also have "\<dots> = image_mset (day_entry parseDate ?F) (mset (remdups (map ?key ?F)))"
    by (rule image_mset_cong) (simp add: day_entry_def)
  finally have ms: "mset ?entries
      = image_mset (day_entry parseDate ?F) (mset (remdups (map ?key ?F)))" .
  have so: "sorted (map (\<lambda>e. label_day (date_D e)) ?entries)"
    unfolding s by (rule sorted_sort_key)
  from c ms so dates show ?thesis by blast
qed

lemma chartData_on_time_example:
  "chartData utc_midnight march_expenses march view_all =
     Some [\<lparr>date_D = ''03/03'', value_D = 1000\<rparr>,
           \<lparr>date_D = ''10/03'', value_D = 190\<rparr>,
           \<lparr>date_D = ''31/03'', value_D = 5\<rparr>]
   \<and> map (\<lambda>e. label_day (date_D e))
        [\<lparr>date_D = ''03/03'', value_D = 1000\<rparr>,
         \<lparr>date_D = ''10/03'', value_D = 190\<rparr>,
         \<lparr>date_D = ''31/03'', value_D = 5\<rparr>] = [3, 10, 31]
   \<and> mset [\<lparr>date_D = ''03/03'', value_D = 1000\<rparr>,
           \<lparr>date_D = ''10/03'', value_D = 190\<rparr>,
           \<lparr>date_D = ''31/03'', value_D = 5\<rparr>]
     = image_mset (day_entry utc_midnight (shown_transactions utc_midnight march view_all march_expenses))
         (mset (remdups (map (\<lambda>t. day_key (utc_midnight (date t)))
            (shown_transactions utc_midnight march view_all march_expenses))))"
proof -
  have m: "getMonth march < 12" by (simp add: march_def)
  have l: "map (\<lambda>e. label_day (date_D e))
        [\<lparr>date_D = ''03/03'', value_D = 1000\<rparr>,
         \<lparr>date_D = ''10/03'', value_D = 190\<rparr>,
         \<lparr>date_D = ''31/03'', value_D = 5\<rparr>] = [3, 10, 31]"
    by (simp add: label_day_def digits_value_def)
  have h: "\<forall>t \<in> set (shown_transactions utc_midnight march view_all march_expenses).
             \<not> late_on_last_day utc_midnight march t"
    by (simp add: shown_transactions_def paid_in_month_def in_month_def days_in_month_def
        leap_year_def late_on_last_day_def after_last_midnight_def example_defs)
  from chartData_on_time [OF m h] obtain entries where
    "chartData utc_midnight march_expenses march view_all = Some entries"
    and "mset entries
      = image_mset (day_entry utc_midnight (shown_transactions utc_midnight march view_all march_expenses))
         (mset (remdups (map (\<lambda>t. day_key (utc_midnight (date t)))
            (shown_transactions utc_midnight march view_all march_expenses))))"
    by blast
  with l show ?thesis by (simp add: chartData_march del: list.map)
qed

text \<open>
  Claim C8.  The histogram keeps the paid transactions of the month window that pass the
  type filter, groups them by day under a zero-padded day/month label, sums the amounts of
  a day and sorts by the number read from the day prefix.  The code departs from it on the
  last day of the month: the paid expense at noon of 31 March passes the filter and lies in
  the window, its label is \<open>31/03\<close> and its group has the amount 50, while \<open>chartData\<close>
  returns no entry.
\<close>

theorem chartData_last_day:
  "chartData local_time [late_lunch] march view_expenses = Some []
   \<and> shown_transactions local_time march view_expenses [late_lunch] = [late_lunch]
   \<and> day_key (local_time (date late_lunch)) = ''31/03''
   \<and> day_entry local_time (shown_transactions local_time march view_expenses [late_lunch])
        ''31/03''
     = \<lparr>date_D = ''31/03'', value_D = 50\<rparr>"
  by (simp add: chartData_def monthTransactions_def Date_new_def Date_le_def days_in_month_def
      leap_year_def local_time_def late_lunch_def lunch_def march_def Object_entries_def
      sort_with_def shown_transactions_def paid_in_month_def in_month_def passes_filter_def
      day_key_def padStart_def toString.simps digit_chars day_entry_def group_total_def)

end
